theory Spec2Isabelle
  imports Main
begin

section \<open>Values shared by the two HTTP wrappers\<close>

text \<open>
  The repository holds two Flask wrappers with the same job-tracking design:
  \<^verbatim>\<open>google_map_flask_api.py\<close> (jobs of class \<^verbatim>\<open>ScrapingJob\<close>, run by
  \<^verbatim>\<open>run_scraping_job\<close>) and \<^verbatim>\<open>New folder/flask_backend_api.py\<close> (jobs of class
  \<^verbatim>\<open>ExtractionJob\<close>, run by \<^verbatim>\<open>run_extraction\<close>). Both are embedded below.

  A Python \<^verbatim>\<open>str\<close> is the list of its code points; \<open>ascii\<close> gives the \<^verbatim>\<open>str\<close> of a
  literal. The keys of dicts, which the code only ever compares with literals, stay
  \<open>string\<close>s. An instant (\<^verbatim>\<open>datetime\<close>) is represented by the text \<^verbatim>\<open>isoformat()\<close> gives for
  it. The values \<^verbatim>\<open>uuid.uuid4()\<close> and \<^verbatim>\<open>datetime.now()\<close> return are inputs of the model.
\<close>

type_synonym pystr = "nat list"

definition ascii :: "string \<Rightarrow> pystr" where
  "ascii s = map of_char s"

type_synonym datetime = pystr

text \<open>A parsed JSON document: what \<^verbatim>\<open>request.get_json()\<close> returns and what \<^verbatim>\<open>jsonify\<close> takes.
  Numbers with a fraction are left out.\<close>

datatype json =
    JNull
  | JBool bool
  | JInt int
  | JStr pystr
  | JList "json list"
  | JDict "(string \<times> json) list"

text \<open>The value of one field of an extracted record: a \<^verbatim>\<open>str\<close>, or \<^verbatim>\<open>None\<close>
  (Selenium's \<^verbatim>\<open>get_attribute("href")\<close> returns \<^verbatim>\<open>None\<close> for an absent attribute).\<close>

datatype pyval = PNone | PStr pystr

type_synonym row = "(string \<times> pyval) list"

datatype exn = AttributeError | TypeError | ValueError | UnicodeEncodeError

text \<open>\<^verbatim>\<open>d.get(k, default)\<close> on a dict held as an association list.\<close>

definition dict_get :: "('k \<times> 'v) list \<Rightarrow> 'k \<Rightarrow> 'v \<Rightarrow> 'v" where
  "dict_get d k dflt = (case map_of d k of None \<Rightarrow> dflt | Some v \<Rightarrow> v)"

text \<open>Python truth value of a JSON value (\<^verbatim>\<open>if not x\<close>) and of a record field.\<close>

fun truthy :: "json \<Rightarrow> bool" where
  "truthy JNull = False"
| "truthy (JBool b) = b"
| "truthy (JInt n) = (n \<noteq> 0)"
| "truthy (JStr s) = (s \<noteq> [])"
| "truthy (JList xs) = (xs \<noteq> [])"
| "truthy (JDict d) = (d \<noteq> [])"

fun pyval_truthy :: "pyval \<Rightarrow> bool" where
  "pyval_truthy PNone = False"
| "pyval_truthy (PStr s) = (s \<noteq> [])"

fun json_of_pyval :: "pyval \<Rightarrow> json" where
  "json_of_pyval PNone = JNull"
| "json_of_pyval (PStr s) = JStr s"

definition json_of_row :: "row \<Rightarrow> json" where
  "json_of_row r = JDict (map (\<lambda>(k, v). (k, json_of_pyval v)) r)"

text \<open>\<^verbatim>\<open>str.strip()\<close>: the code points Python counts as white space.\<close>

definition py_isspace :: "nat \<Rightarrow> bool" where
  "py_isspace c = (c \<in> set [9, 10, 11, 12, 13, 28, 29, 30, 31, 32, 133, 160, 5760,
     8192, 8193, 8194, 8195, 8196, 8197, 8198, 8199, 8200, 8201, 8202,
     8232, 8233, 8239, 8287, 12288])"

definition str_strip :: "pystr \<Rightarrow> pystr" where
  "str_strip s = rev (dropWhile py_isspace (rev (dropWhile py_isspace s)))"

text \<open>\<^verbatim>\<open>data.get(k, default)\<close>, \<^verbatim>\<open>v.strip()\<close> and \<^verbatim>\<open>int(v)\<close> on request values. A value of
  the wrong type raises. What \<^verbatim>\<open>int\<close> makes of a \<^verbatim>\<open>str\<close> is Python's own parser, taken as
  the parameter \<open>int_of_str\<close> (\<open>None\<close> where it raises \<^verbatim>\<open>ValueError\<close>).\<close>

fun py_get :: "json \<Rightarrow> string \<Rightarrow> json \<Rightarrow> exn + json" where
  "py_get (JDict d) k dflt = Inr (dict_get d k dflt)"
| "py_get _ k dflt = Inl AttributeError"

fun py_strip :: "json \<Rightarrow> exn + pystr" where
  "py_strip (JStr s) = Inr (str_strip s)"
| "py_strip _ = Inl AttributeError"

fun py_int :: "(pystr \<Rightarrow> int option) \<Rightarrow> json \<Rightarrow> exn + int" where
  "py_int int_of_str (JInt n) = Inr n"
| "py_int int_of_str (JBool b) = Inr (if b then 1 else 0)"
| "py_int int_of_str (JStr s) = (case int_of_str s of None \<Rightarrow> Inl ValueError | Some n \<Rightarrow> Inr n)"
| "py_int int_of_str _ = Inl TypeError"

definition get_strip :: "json \<Rightarrow> string \<Rightarrow> exn + pystr" where
  "get_strip data k = (case py_get data k (JStr []) of Inl e \<Rightarrow> Inl e | Inr v \<Rightarrow> py_strip v)"

definition get_int :: "(pystr \<Rightarrow> int option) \<Rightarrow> json \<Rightarrow> string \<Rightarrow> int \<Rightarrow> exn + int" where
  "get_int int_of_str data k dflt =
     (case py_get data k (JInt dflt) of Inl e \<Rightarrow> Inl e | Inr v \<Rightarrow> py_int int_of_str v)"

text \<open>The job status: the four string literals the code assigns.\<close>

datatype status = Pending | Running | Completed | Failed

fun status_str :: "status \<Rightarrow> pystr" where
  "status_str Pending = ascii ''pending''"
| "status_str Running = ascii ''running''"
| "status_str Completed = ascii ''completed''"
| "status_str Failed = ascii ''failed''"

text \<open>What a call does: it returns, it raises an exception \<open>e\<close> that is an instance of
  \<^verbatim>\<open>Exception\<close> with \<^verbatim>\<open>str(e)\<close> the given text, or it raises one that is not
  (\<^verbatim>\<open>SystemExit\<close>, raised at \<^verbatim>\<open>enhanced_lead_extractor.py:149\<close>), which no
  \<^verbatim>\<open>except Exception\<close> catches.\<close>

datatype 'a outcome = Returns 'a | Raises pystr | Exits pystr

text \<open>An HTTP response: \<^verbatim>\<open>jsonify(body), code\<close>; \<^verbatim>\<open>send_file\<close> (the bytes, the download name,
  the mimetype); or HTTP 500 after an exception in the handler.\<close>

datatype response =
    Json nat json
  | SendFile "nat list" pystr pystr
  | Error500 exn

fun http_code :: "response \<Rightarrow> nat" where
  "http_code (Json c b) = c"
| "http_code (SendFile content name mime) = 200"
| "http_code (Error500 e) = 500"

definition error_body :: "string \<Rightarrow> json" where
  "error_body msg = JDict [(''success'', JBool False), (''error'', JStr (ascii msg))]"

text \<open>The fields both job classes have. \<^verbatim>\<open>ScrapingJob\<close> and \<^verbatim>\<open>ExtractionJob\<close> extend them.\<close>

record Job =
  job_id :: pystr
  max_results :: int
  status :: status
  progress :: int
  results :: "row list"
  error_message :: "pystr option"
  created_at :: datetime
  completed_at :: "datetime option"

text \<open>The process state: the job objects allocated so far (an object's reference is its
  index), the module-level dict from job id to object, and the threads started so far, each
  with the object it was given and its point of control.\<close>

record ('j, 'pc) system =
  heap :: "'j list"
  table :: "pystr \<rightharpoonup> nat"
  threads :: "(nat \<times> 'pc) list"

definition init_system :: "('j, 'pc) system" where
  "init_system = \<lparr>heap = [], table = Map.empty, threads = []\<rparr>"

text \<open>\<^verbatim>\<open>jobs.get(job_id)\<close>: the object the dict holds for the id, if any.\<close>

definition lookup_job :: "('j, 'pc) system \<Rightarrow> pystr \<Rightarrow> 'j option" where
  "lookup_job \<sigma> jid =
     (case table \<sigma> jid of None \<Rightarrow> None
      | Some r \<Rightarrow> if r < length (heap \<sigma>) then Some (heap \<sigma> ! r) else None)"

text \<open>\<^verbatim>\<open>sum(1 for r in rows if r.get(k))\<close>.\<close>

definition count_with :: "string \<Rightarrow> row list \<Rightarrow> int" where
  "count_with k rows = sum_list (map (\<lambda>r. 1) (filter (\<lambda>r. pyval_truthy (dict_get r k PNone)) rows))"

section \<open>google\_map\_flask\_api.py\<close>

record ScrapingJob = Job +
  location :: pystr
  country :: pystr
  state :: pystr
  business_type :: pystr

text \<open>\<^verbatim>\<open>ScrapingJob.__init__\<close>\<close>

definition new_ScrapingJob ::
  "pystr \<Rightarrow> pystr \<Rightarrow> pystr \<Rightarrow> pystr \<Rightarrow> pystr \<Rightarrow> int \<Rightarrow> datetime \<Rightarrow> ScrapingJob" where
  "new_ScrapingJob jid loc ctry st btype maxr now =
     \<lparr>job_id = jid, max_results = maxr, status = Pending, progress = 0, results = [],
      error_message = None, created_at = now, completed_at = None,
      location = loc, country = ctry, state = st, business_type = btype\<rparr>"

text \<open>What the world does during one statement of \<^verbatim>\<open>run_scraping_job\<close>: the outcome of the
  \<^verbatim>\<open>print\<close> of line 56, of \<^verbatim>\<open>MapsToWebsiteScraper(...)\<close> (line 59), of \<^verbatim>\<open>search_on_maps\<close>
  (line 67), of \<^verbatim>\<open>scroll_hover_and_extract\<close> (line 71), of the \<^verbatim>\<open>print\<close>s of lines 100 and
  101, of \<^verbatim>\<open>scraper.close()\<close> (line 104, which catches the exceptions of \<^verbatim>\<open>driver.quit()\<close>
  but not those of its own \<^verbatim>\<open>print\<close>s), and the clock. \<^verbatim>\<open>set_max_results\<close> is an assignment
  and does not raise.\<close>

record scraper_env =
  start_print :: "unit outcome"
  init_result :: "unit outcome"
  search_result :: "unit outcome"
  extract_result :: "row list outcome"
  done_print :: "unit outcome"
  stats_print :: "unit outcome"
  close_result :: "unit outcome"
  scraper_clock :: datetime

text \<open>The points of control of \<^verbatim>\<open>run_scraping_job\<close>, named by the source line about to run,
  with the live local variables (\<^verbatim>\<open>results\<close>, and \<^verbatim>\<open>e\<close> in the handler). Line 104 is reached
  in three ways: at the end of the inner \<^verbatim>\<open>try\<close>, with an \<^verbatim>\<open>Exception\<close> in flight, or with an
  exception in flight that is no \<^verbatim>\<open>Exception\<close>.\<close>

datatype scrape_pc =
    S45 | S46 | S56 | S59 | S60 | S67 | S68 | S71
  | S72 "row list" | S89 "row list" | S90 | S91 | S92
  | S100 | S101 | S104 | S104_raised pystr | S104_exiting
  | S107 pystr | S108 pystr | S109
  | S_done | S_dead

text \<open>Lines 77 to 86: every required field, with \<^verbatim>\<open>''\<close> for a missing key.\<close>

definition required_fields :: "string list" where
  "required_fields = [''name'', ''rating'', ''category'', ''address'', ''phone'', ''website'',
     ''email'', ''linkedin'']"

definition clean_result :: "row \<Rightarrow> row" where
  "clean_result result = map (\<lambda>k. (k, dict_get result k (PStr []))) required_fields"

text \<open>One statement of \<^verbatim>\<open>run_scraping_job(job)\<close>. The outer \<^verbatim>\<open>try\<close> spans lines 45 to 104, the
  inner one lines 64 to 101. An exception inside the inner \<^verbatim>\<open>try\<close> first runs
  \<^verbatim>\<open>scraper.close()\<close> (\<^verbatim>\<open>finally\<close>), whose own exception replaces it. An \<^verbatim>\<open>Exception\<close> that
  leaves the outer \<^verbatim>\<open>try\<close> reaches the handler of line 106, also when the job is already
  completed; any other exception ends the thread. After line 109 nothing is assigned: the
  \<^verbatim>\<open>print\<close> of line 110 ends the run whether it returns or raises.\<close>

fun run_scraping_job_step :: "scraper_env \<Rightarrow> scrape_pc \<Rightarrow> ScrapingJob \<Rightarrow> scrape_pc \<times> ScrapingJob" where
  "run_scraping_job_step env S45 job = (S46, job\<lparr>status := Running\<rparr>)"
| "run_scraping_job_step env S46 job = (S56, job\<lparr>progress := 10\<rparr>)"
| "run_scraping_job_step env S56 job =
     (case start_print env of
        Returns u \<Rightarrow> (S59, job)
      | Raises m \<Rightarrow> (S107 m, job)
      | Exits m \<Rightarrow> (S_dead, job))"
| "run_scraping_job_step env S59 job =
     (case init_result env of
        Returns u \<Rightarrow> (S60, job)
      | Raises m \<Rightarrow> (S107 m, job)
      | Exits m \<Rightarrow> (S_dead, job))"
| "run_scraping_job_step env S60 job = (S67, job\<lparr>progress := 20\<rparr>)"
| "run_scraping_job_step env S67 job =
     (case search_result env of
        Returns u \<Rightarrow> (S68, job)
      | Raises m \<Rightarrow> (S104_raised m, job)
      | Exits m \<Rightarrow> (S104_exiting, job))"
| "run_scraping_job_step env S68 job = (S71, job\<lparr>progress := 40\<rparr>)"
| "run_scraping_job_step env S71 job =
     (case extract_result env of
        Returns rs \<Rightarrow> (S72 rs, job)
      | Raises m \<Rightarrow> (S104_raised m, job)
      | Exits m \<Rightarrow> (S104_exiting, job))"
| "run_scraping_job_step env (S72 rs) job = (S89 rs, job\<lparr>progress := 90\<rparr>)"
| "run_scraping_job_step env (S89 rs) job = (S90, job\<lparr>results := map clean_result rs\<rparr>)"
| "run_scraping_job_step env S90 job = (S91, job\<lparr>status := Completed\<rparr>)"
| "run_scraping_job_step env S91 job = (S92, job\<lparr>progress := 100\<rparr>)"
| "run_scraping_job_step env S92 job = (S100, job\<lparr>completed_at := Some (scraper_clock env)\<rparr>)"
| "run_scraping_job_step env S100 job =
     (case done_print env of
        Returns u \<Rightarrow> (S101, job)
      | Raises m \<Rightarrow> (S104_raised m, job)
      | Exits m \<Rightarrow> (S104_exiting, job))"
| "run_scraping_job_step env S101 job =
     (case stats_print env of
        Returns u \<Rightarrow> (S104, job)
      | Raises m \<Rightarrow> (S104_raised m, job)
      | Exits m \<Rightarrow> (S104_exiting, job))"
| "run_scraping_job_step env S104 job =
     (case close_result env of
        Returns u \<Rightarrow> (S_done, job)
      | Raises m \<Rightarrow> (S107 m, job)
      | Exits m \<Rightarrow> (S_dead, job))"
| "run_scraping_job_step env (S104_raised m) job =
     (case close_result env of
        Returns u \<Rightarrow> (S107 m, job)
      | Raises m' \<Rightarrow> (S107 m', job)
      | Exits m' \<Rightarrow> (S_dead, job))"
| "run_scraping_job_step env S104_exiting job =
     (case close_result env of
        Returns u \<Rightarrow> (S_dead, job)
      | Raises m' \<Rightarrow> (S107 m', job)
      | Exits m' \<Rightarrow> (S_dead, job))"
| "run_scraping_job_step env (S107 m) job = (S108 m, job\<lparr>status := Failed\<rparr>)"
| "run_scraping_job_step env (S108 m) job = (S109, job\<lparr>error_message := Some m\<rparr>)"
| "run_scraping_job_step env S109 job = (S_done, job\<lparr>progress := 0\<rparr>)"
| "run_scraping_job_step env S_done job = (S_done, job)"
| "run_scraping_job_step env S_dead job = (S_dead, job)"

text \<open>The first \<open>n\<close> statements of \<^verbatim>\<open>run_scraping_job(job)\<close> in a world that answers
  \<open>env\<close>, and the whole run: the longest path has nineteen statements, and the two final
  points of control repeat.\<close>

fun scraping_steps :: "nat \<Rightarrow> scraper_env \<Rightarrow> scrape_pc \<times> ScrapingJob \<Rightarrow> scrape_pc \<times> ScrapingJob" where
  "scraping_steps 0 env c = c"
| "scraping_steps (Suc n) env c = scraping_steps n env (run_scraping_job_step env (fst c) (snd c))"

definition run_scraping_job :: "scraper_env \<Rightarrow> ScrapingJob \<Rightarrow> scrape_pc \<times> ScrapingJob" where
  "run_scraping_job env job = scraping_steps 19 env (S45, job)"

type_synonym scrape_system = "(ScrapingJob, scrape_pc) system"

text \<open>\<^verbatim>\<open>start_scraping\<close> (POST /api/scrape). Every exception of the body is answered 500.
  Creating and starting the thread is taken to succeed.\<close>

definition start_scraping ::
  "(pystr \<Rightarrow> int option) \<Rightarrow> json \<Rightarrow> pystr \<Rightarrow> datetime \<Rightarrow> scrape_system \<Rightarrow> response \<times> scrape_system" where
  "start_scraping int_of_str data uuid now \<sigma> =
     (case get_strip data ''location'' of Inl e \<Rightarrow> (Error500 e, \<sigma>) | Inr loc \<Rightarrow>
     (case get_strip data ''country'' of Inl e \<Rightarrow> (Error500 e, \<sigma>) | Inr ctry \<Rightarrow>
     (case get_strip data ''state'' of Inl e \<Rightarrow> (Error500 e, \<sigma>) | Inr st \<Rightarrow>
     (case get_strip data ''business_type'' of Inl e \<Rightarrow> (Error500 e, \<sigma>) | Inr btype \<Rightarrow>
     (case get_int int_of_str data ''max_results'' 50 of Inl e \<Rightarrow> (Error500 e, \<sigma>) | Inr maxr \<Rightarrow>
        if loc = [] then (Json 400 (error_body ''Location is required''), \<sigma>)
        else if btype = [] then (Json 400 (error_body ''Business type is required''), \<sigma>)
        else if maxr \<notin> set [10, 20, 50, 80, 100]
          then (Json 400 (error_body ''Invalid max_results value''), \<sigma>)
        else
          (Json 200 (JDict [(''success'', JBool True), (''job_id'', JStr uuid),
              (''message'', JStr (ascii ''Scraping started with email extraction enabled''))]),
           \<sigma>\<lparr>heap := heap \<sigma> @ [new_ScrapingJob uuid loc ctry st btype maxr now],
             table := (table \<sigma>)(uuid \<mapsto> length (heap \<sigma>)),
             threads := threads \<sigma> @ [(length (heap \<sigma>), S45)]\<rparr>))))))"

text \<open>\<^verbatim>\<open>get_job_status\<close> (GET /api/status/<job_id>). With the status \<^verbatim>\<open>'completed'\<close> and
  \<^verbatim>\<open>completed_at\<close> still \<^verbatim>\<open>None\<close>, \<^verbatim>\<open>job.completed_at.isoformat()\<close> raises.\<close>

definition get_job_status :: "scrape_system \<Rightarrow> pystr \<Rightarrow> response" where
  "get_job_status \<sigma> jid =
     (case lookup_job \<sigma> jid of
        None \<Rightarrow> Json 404 (error_body ''Job not found'')
      | Some job \<Rightarrow>
          (let response = [(''success'', JBool True), (''job_id'', JStr jid),
                 (''status'', JStr (status_str (status job))),
                 (''progress'', JInt (progress job)),
                 (''created_at'', JStr (created_at job))]
           in if status job = Completed then
                (case completed_at job of
                   None \<Rightarrow> Error500 AttributeError
                 | Some t \<Rightarrow> Json 200 (JDict (response @
                     [(''completed_at'', JStr t),
                      (''results_count'', JInt (int (length (results job)))),
                      (''emails_found'', JInt (count_with ''email'' (results job))),
                      (''websites_found'', JInt (count_with ''website'' (results job)))])))
              else if status job = Failed then
                Json 200 (JDict (response @
                  [(''error_message'', (case error_message job of None \<Rightarrow> JNull | Some m \<Rightarrow> JStr m))]))
              else Json 200 (JDict response)))"

text \<open>\<^verbatim>\<open>get_results\<close> (GET /api/results/<job_id>)\<close>

definition get_results :: "scrape_system \<Rightarrow> pystr \<Rightarrow> response" where
  "get_results \<sigma> jid =
     (case lookup_job \<sigma> jid of
        None \<Rightarrow> Json 404 (error_body ''Job not found'')
      | Some job \<Rightarrow>
          if status job \<noteq> Completed then Json 400 (error_body ''Job not completed yet'')
          else Json 200 (JDict [(''success'', JBool True), (''job_id'', JStr jid),
                 (''results'', JList (map json_of_row (results job))),
                 (''statistics'', JDict [
                    (''total'', JInt (int (length (results job)))),
                    (''with_emails'', JInt (count_with ''email'' (results job))),
                    (''with_websites'', JInt (count_with ''website'' (results job))),
                    (''with_linkedin'', JInt (count_with ''linkedin'' (results job)))])]))"

section \<open>CSV as \<^verbatim>\<open>csv.DictWriter\<close> writes it\<close>

text \<open>The default dialect: delimiter comma, quote character double quote, doubled inside a
  quoted field, line terminator CR LF, minimal quoting (a field is quoted when it holds the
  delimiter, the quote character, CR or LF).\<close>

abbreviation comma :: nat where "comma \<equiv> 44"
abbreviation dquote :: nat where "dquote \<equiv> 34"
abbreviation CR :: nat where "CR \<equiv> 13"
abbreviation LF :: nat where "LF \<equiv> 10"

definition csv_special :: "nat \<Rightarrow> bool" where
  "csv_special c = (c = comma \<or> c = dquote \<or> c = CR \<or> c = LF)"

text \<open>The writer turns \<^verbatim>\<open>None\<close> into the empty text and leaves a \<^verbatim>\<open>str\<close> as it is.\<close>

fun csv_text :: "pyval \<Rightarrow> pystr" where
  "csv_text PNone = []"
| "csv_text (PStr s) = s"

definition csv_escape :: "pystr \<Rightarrow> pystr" where
  "csv_escape s = concat (map (\<lambda>c. if c = dquote then [dquote, dquote] else [c]) s)"

definition csv_field :: "pystr \<Rightarrow> pystr" where
  "csv_field s = (if list_ex csv_special s then dquote # csv_escape s @ [dquote] else s)"

fun csv_join :: "pystr list \<Rightarrow> pystr" where
  "csv_join [] = []"
| "csv_join [f] = f"
| "csv_join (f # g # fs) = f @ comma # csv_join (g # fs)"

text \<open>\<^verbatim>\<open>writer.writerow\<close>: a row of one empty field is written as two quote characters.\<close>

definition csv_writerow :: "pyval list \<Rightarrow> pystr" where
  "csv_writerow vs =
     (let fs = map csv_text vs
      in (if fs = [[]] then [dquote, dquote] else csv_join (map csv_field fs)) @ [CR, LF])"

text \<open>\<^verbatim>\<open>DictWriter.writeheader\<close> and \<^verbatim>\<open>DictWriter.writerow\<close> (\<^verbatim>\<open>restval\<close> is \<^verbatim>\<open>''\<close>). Both
  handlers pass a dict whose keys are exactly the field names, so no extra key is met.\<close>

definition writeheader :: "string list \<Rightarrow> pystr" where
  "writeheader fieldnames = csv_writerow (map (\<lambda>k. PStr (ascii k)) fieldnames)"

definition writerow :: "string list \<Rightarrow> row \<Rightarrow> pystr" where
  "writerow fieldnames rowdict = csv_writerow (map (\<lambda>k. dict_get rowdict k (PStr [])) fieldnames)"

text \<open>\<^verbatim>\<open>str.encode('utf-8')\<close>: one to four bytes for a code point; a surrogate code point
  (\<^verbatim>\<open>U+D800\<close> to \<^verbatim>\<open>U+DFFF\<close>) raises \<^verbatim>\<open>UnicodeEncodeError\<close>. A number from \<^verbatim>\<open>0x110000\<close> on is no
  code point and is refused as well.\<close>

definition encode_point :: "nat \<Rightarrow> nat list option" where
  "encode_point c =
     (if c < 128 then Some [c]
      else if c < 2048 then Some [192 + c div 64, 128 + c mod 64]
      else if c < 65536 then
        (if 55296 \<le> c \<and> c \<le> 57343 then None
         else Some [224 + c div 4096, 128 + c div 64 mod 64, 128 + c mod 64])
      else if c < 1114112 then
        Some [240 + c div 262144, 128 + c div 4096 mod 64, 128 + c div 64 mod 64, 128 + c mod 64]
      else None)"

fun utf8_encode :: "pystr \<Rightarrow> exn + nat list" where
  "utf8_encode [] = Inr []"
| "utf8_encode (c # s) =
     (case encode_point c of
        None \<Rightarrow> Inl UnicodeEncodeError
      | Some bs \<Rightarrow> (case utf8_encode s of Inl e \<Rightarrow> Inl e | Inr r \<Rightarrow> Inr (bs @ r)))"

text \<open>\<^verbatim>\<open>s.replace(' ', '_').replace(',', '')\<close>\<close>

definition safe_name :: "pystr \<Rightarrow> pystr" where
  "safe_name s = filter (\<lambda>c. c \<noteq> comma) (map (\<lambda>c. if c = 32 then 95 else c) s)"

text \<open>\<^verbatim>\<open>download_csv\<close> (GET /api/download/<job_id>); \<open>stamp\<close> is
  \<^verbatim>\<open>datetime.now().strftime('%Y%m%d_%H%M%S')\<close>. The handler has no \<^verbatim>\<open>try\<close>: an exception of
  \<^verbatim>\<open>encode\<close> is answered 500.\<close>

definition download_csv :: "pystr \<Rightarrow> scrape_system \<Rightarrow> pystr \<Rightarrow> response" where
  "download_csv stamp \<sigma> jid =
     (case lookup_job \<sigma> jid of
        None \<Rightarrow> Json 404 (error_body ''Job not found'')
      | Some job \<Rightarrow>
          if status job \<noteq> Completed then Json 400 (error_body ''Job not completed yet'')
          else
            (let fieldnames = [''name'', ''rating'', ''category'', ''address'', ''phone'',
                   ''website'', ''email'', ''linkedin''];
                 output = writeheader fieldnames @
                   concat (map (\<lambda>result. writerow fieldnames
                       (map (\<lambda>field. (field, dict_get result field (PStr []))) fieldnames))
                     (results job));
                 filename = ascii ''gmaps_businesses_'' @ safe_name (location job) @ ascii ''_'' @
                   safe_name (business_type job) @ ascii ''_'' @ stamp @ ascii ''.csv''
             in case utf8_encode output of
                  Inl e \<Rightarrow> Error500 e
                | Inr mem \<Rightarrow> SendFile mem filename (ascii ''text/csv'')))"

section \<open>New folder/flask\_backend\_api.py\<close>

record ExtractionJob = Job +
  city :: pystr
  industries :: json
  stats :: "(string \<times> int) list"

text \<open>\<^verbatim>\<open>ExtractionJob.__init__\<close>\<close>

definition new_ExtractionJob :: "pystr \<Rightarrow> pystr \<Rightarrow> json \<Rightarrow> int \<Rightarrow> datetime \<Rightarrow> ExtractionJob" where
  "new_ExtractionJob jid cty inds maxr now =
     \<lparr>job_id = jid, max_results = maxr, status = Pending, progress = 0, results = [],
      error_message = None, created_at = now, completed_at = None,
      city = cty, industries = inds, stats = []\<rparr>"

text \<open>What the world does during one statement of \<^verbatim>\<open>run_extraction\<close>: the outcome of
  \<^verbatim>\<open>extractor.extract_leads()\<close> (line 51) together with \<^verbatim>\<open>extractor.stats\<close> as line 56 reads
  it, and the clock. The constructor of \<^verbatim>\<open>BusinessLeadExtractor\<close> only assigns, and
  \<^verbatim>\<open>run_extraction\<close> itself prints nothing.\<close>

record extractor_env =
  leads_result :: "(row list \<times> (string \<times> int) list) outcome"
  extractor_clock :: datetime

datatype extract_pc =
    E43 | E44 | E47 | E48 | E51
  | E52 "row list" "(string \<times> int) list" | E55 "row list" "(string \<times> int) list"
  | E56 "(string \<times> int) list" | E57 | E58 | E59
  | E62 pystr | E63 pystr | E64
  | E_done | E_dead

text \<open>One statement of \<^verbatim>\<open>run_extraction(job)\<close>. Nothing follows line 59 inside the \<^verbatim>\<open>try\<close>.\<close>

fun run_extraction_step :: "extractor_env \<Rightarrow> extract_pc \<Rightarrow> ExtractionJob \<Rightarrow> extract_pc \<times> ExtractionJob" where
  "run_extraction_step env E43 job = (E44, job\<lparr>status := Running\<rparr>)"
| "run_extraction_step env E44 job = (E47, job\<lparr>progress := 10\<rparr>)"
| "run_extraction_step env E47 job = (E48, job)"
| "run_extraction_step env E48 job = (E51, job\<lparr>progress := 20\<rparr>)"
| "run_extraction_step env E51 job =
     (case leads_result env of
        Returns (leads, st) \<Rightarrow> (E52 leads st, job)
      | Raises m \<Rightarrow> (E62 m, job)
      | Exits m \<Rightarrow> (E_dead, job))"
| "run_extraction_step env (E52 leads st) job = (E55 leads st, job\<lparr>progress := 90\<rparr>)"
| "run_extraction_step env (E55 leads st) job = (E56 st, job\<lparr>results := leads\<rparr>)"
| "run_extraction_step env (E56 st) job = (E57, job\<lparr>stats := st\<rparr>)"
| "run_extraction_step env E57 job = (E58, job\<lparr>status := Completed\<rparr>)"
| "run_extraction_step env E58 job = (E59, job\<lparr>progress := 100\<rparr>)"
| "run_extraction_step env E59 job = (E_done, job\<lparr>completed_at := Some (extractor_clock env)\<rparr>)"
| "run_extraction_step env (E62 m) job = (E63 m, job\<lparr>status := Failed\<rparr>)"
| "run_extraction_step env (E63 m) job = (E64, job\<lparr>error_message := Some m\<rparr>)"
| "run_extraction_step env E64 job = (E_done, job\<lparr>progress := 0\<rparr>)"
| "run_extraction_step env E_done job = (E_done, job)"
| "run_extraction_step env E_dead job = (E_dead, job)"

text \<open>The first \<open>n\<close> statements of \<^verbatim>\<open>run_extraction(job)\<close>, and the whole run: eleven
  statements on the longest path.\<close>

fun extraction_steps :: "nat \<Rightarrow> extractor_env \<Rightarrow> extract_pc \<times> ExtractionJob \<Rightarrow> extract_pc \<times> ExtractionJob" where
  "extraction_steps 0 env c = c"
| "extraction_steps (Suc n) env c = extraction_steps n env (run_extraction_step env (fst c) (snd c))"

definition run_extraction :: "extractor_env \<Rightarrow> ExtractionJob \<Rightarrow> extract_pc \<times> ExtractionJob" where
  "run_extraction env job = extraction_steps 11 env (E43, job)"

type_synonym extract_system = "(ExtractionJob, extract_pc) system"

text \<open>\<^verbatim>\<open>start_extraction\<close> (POST /api/extract)\<close>

definition start_extraction ::
  "(pystr \<Rightarrow> int option) \<Rightarrow> json \<Rightarrow> pystr \<Rightarrow> datetime \<Rightarrow> extract_system \<Rightarrow> response \<times> extract_system" where
  "start_extraction int_of_str data uuid now \<sigma> =
     (case get_strip data ''city'' of Inl e \<Rightarrow> (Error500 e, \<sigma>) | Inr cty \<Rightarrow>
     (case py_get data ''industries'' (JList []) of Inl e \<Rightarrow> (Error500 e, \<sigma>) | Inr inds \<Rightarrow>
     (case get_int int_of_str data ''maxResults'' 250 of Inl e \<Rightarrow> (Error500 e, \<sigma>) | Inr maxr \<Rightarrow>
        if cty = [] then (Json 400 (error_body ''City is required''), \<sigma>)
        else if \<not> truthy inds
          then (Json 400 (error_body ''At least one industry must be selected''), \<sigma>)
        else
          (Json 200 (JDict [(''success'', JBool True), (''job_id'', JStr uuid),
              (''message'', JStr (ascii ''Extraction started''))]),
           \<sigma>\<lparr>heap := heap \<sigma> @ [new_ExtractionJob uuid cty inds maxr now],
             table := (table \<sigma>)(uuid \<mapsto> length (heap \<sigma>)),
             threads := threads \<sigma> @ [(length (heap \<sigma>), E43)]\<rparr>))))"

definition json_of_stats :: "(string \<times> int) list \<Rightarrow> json" where
  "json_of_stats st = JDict (map (\<lambda>(k, n). (k, JInt n)) st)"

text \<open>\<^verbatim>\<open>get_job_status\<close> of flask\_backend\_api.py\<close>

definition extraction_get_job_status :: "extract_system \<Rightarrow> pystr \<Rightarrow> response" where
  "extraction_get_job_status \<sigma> jid =
     (case lookup_job \<sigma> jid of
        None \<Rightarrow> Json 404 (error_body ''Job not found'')
      | Some job \<Rightarrow>
          (let response = [(''success'', JBool True), (''job_id'', JStr jid),
                 (''status'', JStr (status_str (status job))),
                 (''progress'', JInt (progress job)),
                 (''created_at'', JStr (created_at job))]
           in if status job = Completed then
                (case completed_at job of
                   None \<Rightarrow> Error500 AttributeError
                 | Some t \<Rightarrow> Json 200 (JDict (response @
                     [(''completed_at'', JStr t),
                      (''results_count'', JInt (int (length (results job)))),
                      (''stats'', json_of_stats (stats job))])))
              else if status job = Failed then
                Json 200 (JDict (response @
                  [(''error_message'', (case error_message job of None \<Rightarrow> JNull | Some m \<Rightarrow> JStr m))]))
              else Json 200 (JDict response)))"

text \<open>\<^verbatim>\<open>get_results\<close> of flask\_backend\_api.py\<close>

definition extraction_get_results :: "extract_system \<Rightarrow> pystr \<Rightarrow> response" where
  "extraction_get_results \<sigma> jid =
     (case lookup_job \<sigma> jid of
        None \<Rightarrow> Json 404 (error_body ''Job not found'')
      | Some job \<Rightarrow>
          if status job \<noteq> Completed then Json 400 (error_body ''Job not completed yet'')
          else Json 200 (JDict [(''success'', JBool True), (''job_id'', JStr jid),
                 (''results'', JList (map json_of_row (results job))),
                 (''stats'', json_of_stats (stats job))]))"

text \<open>\<^verbatim>\<open>download_csv\<close> of flask\_backend\_api.py: the column \<^verbatim>\<open>email\<close> is read from the key
  \<^verbatim>\<open>emails_found\<close>, every other column from the key of its own name.\<close>

definition csv_row :: "row \<Rightarrow> row" where
  "csv_row result =
     [(''name'', dict_get result ''name'' (PStr [])),
      (''industry'', dict_get result ''industry'' (PStr [])),
      (''location'', dict_get result ''location'' (PStr [])),
      (''email'', dict_get result ''emails_found'' (PStr [])),
      (''revenue'', dict_get result ''revenue'' (PStr [])),
      (''website'', dict_get result ''website'' (PStr [])),
      (''phone'', dict_get result ''phone'' (PStr [])),
      (''extraction_date'', dict_get result ''extraction_date'' (PStr []))]"

definition extraction_download_csv :: "pystr \<Rightarrow> extract_system \<Rightarrow> pystr \<Rightarrow> response" where
  "extraction_download_csv stamp \<sigma> jid =
     (case lookup_job \<sigma> jid of
        None \<Rightarrow> Json 404 (error_body ''Job not found'')
      | Some job \<Rightarrow>
          if status job \<noteq> Completed then Json 400 (error_body ''Job not completed yet'')
          else
            (let fieldnames = [''name'', ''industry'', ''location'', ''email'', ''revenue'',
                   ''website'', ''phone'', ''extraction_date''];
                 output = writeheader fieldnames @
                   concat (map (\<lambda>result. writerow fieldnames (csv_row result)) (results job));
                 filename = ascii ''business_leads_'' @ safe_name (city job) @ ascii ''_'' @ stamp @
                   ascii ''.csv''
             in case utf8_encode output of
                  Inl e \<Rightarrow> Error500 e
                | Inr mem \<Rightarrow> SendFile mem filename (ascii ''text/csv'')))"

section \<open>The running process\<close>

text \<open>The process interleaves request handlers and job threads. An event is a POST to the
  submit endpoint (with the id \<^verbatim>\<open>uuid4\<close> would draw and the clock), or one statement of the
  thread started \<open>i\<close>-th. The GET handlers read the state and do not change it.\<close>

datatype 'env event = Post json pystr datetime | Run nat 'env

definition run_thread ::
  "('env \<Rightarrow> 'pc \<Rightarrow> 'j \<Rightarrow> 'pc \<times> 'j) \<Rightarrow> nat \<Rightarrow> 'env \<Rightarrow> ('j, 'pc) system \<Rightarrow> ('j, 'pc) system" where
  "run_thread stmt i env \<sigma> =
     (if i < length (threads \<sigma>) \<and> fst (threads \<sigma> ! i) < length (heap \<sigma>) then
        (let r = fst (threads \<sigma> ! i);
             next = stmt env (snd (threads \<sigma> ! i)) (heap \<sigma> ! r)
         in \<sigma>\<lparr>heap := (heap \<sigma>)[r := snd next], threads := (threads \<sigma>)[i := (r, fst next)]\<rparr>)
      else \<sigma>)"

fun scrape_event :: "(pystr \<Rightarrow> int option) \<Rightarrow> scraper_env event \<Rightarrow> scrape_system \<Rightarrow> scrape_system" where
  "scrape_event P (Post data uuid now) \<sigma> = snd (start_scraping P data uuid now \<sigma>)"
| "scrape_event P (Run i env) \<sigma> = run_thread run_scraping_job_step i env \<sigma>"

definition scrape_exec :: "(pystr \<Rightarrow> int option) \<Rightarrow> scraper_env event list \<Rightarrow> scrape_system \<Rightarrow> scrape_system" where
  "scrape_exec P evs \<sigma> = foldl (\<lambda>s e. scrape_event P e s) \<sigma> evs"

fun extract_event :: "(pystr \<Rightarrow> int option) \<Rightarrow> extractor_env event \<Rightarrow> extract_system \<Rightarrow> extract_system" where
  "extract_event P (Post data uuid now) \<sigma> = snd (start_extraction P data uuid now \<sigma>)"
| "extract_event P (Run i env) \<sigma> = run_thread run_extraction_step i env \<sigma>"

definition extract_exec :: "(pystr \<Rightarrow> int option) \<Rightarrow> extractor_env event list \<Rightarrow> extract_system \<Rightarrow> extract_system" where
  "extract_exec P evs \<sigma> = foldl (\<lambda>s e. extract_event P e s) \<sigma> evs"

section \<open>Invariants of the running process: definitions\<close>

text \<open>The arrows of the status order the spec gives: pending to running, running to completed
  or failed. No arrow leaves completed or failed.\<close>

fun forward :: "status \<Rightarrow> status \<Rightarrow> bool" where
  "forward Pending Running = True"
| "forward Running Completed = True"
| "forward Running Failed = True"
| "forward _ _ = False"

text \<open>The shape of every state the process reaches: the \<open>i\<close>-th thread started was given the
  \<open>i\<close>-th job object, the point of control of each thread fits the fields of its job (the
  predicate \<open>ok\<close>), and the dict holds references to allocated objects only.\<close>

definition wf_system :: "('pc \<Rightarrow> 'j \<Rightarrow> bool) \<Rightarrow> ('j, 'pc) system \<Rightarrow> bool" where
  "wf_system ok \<sigma> \<longleftrightarrow>
     map fst (threads \<sigma>) = [0..<length (heap \<sigma>)] \<and>
     (\<forall>i<length (heap \<sigma>). ok (snd (threads \<sigma> ! i)) (heap \<sigma> ! i)) \<and>
     (\<forall>k r. table \<sigma> k = Some r \<longrightarrow> r < length (heap \<sigma>))"

text \<open>What the point of control of \<^verbatim>\<open>run_scraping_job\<close> says about its job.\<close>

fun scrape_ok :: "scrape_pc \<Rightarrow> ScrapingJob \<Rightarrow> bool" where
  "scrape_ok S45 j = (status j = Pending \<and> completed_at j = None)"
| "scrape_ok S91 j = (status j = Completed \<and> completed_at j = None)"
| "scrape_ok S92 j = (status j = Completed \<and> completed_at j = None \<and> progress j = 100)"
| "scrape_ok S100 j = (status j = Completed \<and> completed_at j \<noteq> None \<and> progress j = 100)"
| "scrape_ok S101 j = (status j = Completed \<and> completed_at j \<noteq> None \<and> progress j = 100)"
| "scrape_ok S104 j = (status j = Completed \<and> completed_at j \<noteq> None \<and> progress j = 100)"
| "scrape_ok (S104_raised m) j =
     (status j = Running \<and> completed_at j = None \<or> status j = Completed \<and> completed_at j \<noteq> None)"
| "scrape_ok S104_exiting j =
     (status j = Running \<and> completed_at j = None \<or> status j = Completed \<and> completed_at j \<noteq> None)"
| "scrape_ok (S107 m) j =
     (status j = Running \<and> completed_at j = None \<or> status j = Completed \<and> completed_at j \<noteq> None)"
| "scrape_ok (S108 m) j = (status j = Failed)"
| "scrape_ok S109 j = (status j = Failed \<and> error_message j \<noteq> None)"
| "scrape_ok S_done j =
     (status j = Completed \<and> completed_at j \<noteq> None \<and> progress j = 100 \<or>
      status j = Failed \<and> progress j = 0 \<and> error_message j \<noteq> None)"
| "scrape_ok S_dead j =
     (status j = Running \<and> completed_at j = None \<or> status j = Completed \<and> completed_at j \<noteq> None)"
| "scrape_ok pc j = (status j = Running \<and> completed_at j = None)"

text \<open>What the point of control of \<^verbatim>\<open>run_extraction\<close> says about its job.\<close>

fun extract_ok :: "extract_pc \<Rightarrow> ExtractionJob \<Rightarrow> bool" where
  "extract_ok E43 j = (status j = Pending \<and> completed_at j = None)"
| "extract_ok E58 j = (status j = Completed \<and> completed_at j = None)"
| "extract_ok E59 j = (status j = Completed \<and> completed_at j = None \<and> progress j = 100)"
| "extract_ok (E63 m) j = (status j = Failed \<and> completed_at j = None)"
| "extract_ok E64 j = (status j = Failed \<and> completed_at j = None \<and> error_message j \<noteq> None)"
| "extract_ok E_done j =
     (status j = Completed \<and> completed_at j \<noteq> None \<and> progress j = 100 \<or>
      status j = Failed \<and> completed_at j = None \<and> progress j = 0 \<and> error_message j \<noteq> None)"
| "extract_ok pc j = (status j = Running \<and> completed_at j = None)"

text \<open>The job id a reply of submit carries (none unless the reply is a 200), and the ids the
  submits of a run have issued.\<close>

fun issued_id :: "response \<Rightarrow> pystr list" where
  "issued_id (Json c (JDict d)) =
     (if c = 200 then (case map_of d ''job_id'' of Some (JStr u) \<Rightarrow> [u] | _ \<Rightarrow> []) else [])"
| "issued_id _ = []"

fun scrape_issued :: "(pystr \<Rightarrow> int option) \<Rightarrow> scraper_env event list \<Rightarrow> scrape_system \<Rightarrow> pystr list" where
  "scrape_issued P [] \<sigma> = []"
| "scrape_issued P (Post data uuid now # evs) \<sigma> =
     issued_id (fst (start_scraping P data uuid now \<sigma>)) @
     scrape_issued P evs (snd (start_scraping P data uuid now \<sigma>))"
| "scrape_issued P (Run i env # evs) \<sigma> = scrape_issued P evs (run_thread run_scraping_job_step i env \<sigma>)"

fun extract_issued :: "(pystr \<Rightarrow> int option) \<Rightarrow> extractor_env event list \<Rightarrow> extract_system \<Rightarrow> pystr list" where
  "extract_issued P [] \<sigma> = []"
| "extract_issued P (Post data uuid now # evs) \<sigma> =
     issued_id (fst (start_extraction P data uuid now \<sigma>)) @
     extract_issued P evs (snd (start_extraction P data uuid now \<sigma>))"
| "extract_issued P (Run i env # evs) \<sigma> = extract_issued P evs (run_thread run_extraction_step i env \<sigma>)"

text \<open>The record holds a non-empty text in the field \<open>k\<close>.\<close>

definition field_nonempty :: "string \<Rightarrow> row \<Rightarrow> bool" where
  "field_nonempty k r = (case map_of r k of Some (PStr s) \<Rightarrow> s \<noteq> [] | _ \<Rightarrow> False)"

text \<open>The run of a job in the world \<open>env\<close> fails before the job is completed: an
  \<^verbatim>\<open>Exception\<close> reaches the handler of line 106 with the message given, raised by the
  \<^verbatim>\<open>print\<close> of line 56, by the constructor, or by \<^verbatim>\<open>search_on_maps\<close> or
  \<^verbatim>\<open>scroll_hover_and_extract\<close>, after which \<^verbatim>\<open>scraper.close()\<close> runs and, when it raises
  itself, replaces the exception. In flask\_backend\_api.py: \<^verbatim>\<open>extract_leads\<close> raises.\<close>

definition closing :: "scraper_env \<Rightarrow> pystr option \<Rightarrow> pystr option" where
  "closing env pending =
     (case close_result env of Returns u \<Rightarrow> pending | Raises m \<Rightarrow> Some m | Exits m \<Rightarrow> None)"

definition scraper_raises :: "scraper_env \<Rightarrow> pystr option" where
  "scraper_raises env =
     (case start_print env of
        Raises m \<Rightarrow> Some m
      | Exits m \<Rightarrow> None
      | Returns u \<Rightarrow>
     (case init_result env of
        Raises m \<Rightarrow> Some m
      | Exits m \<Rightarrow> None
      | Returns u \<Rightarrow>
          (case search_result env of
             Raises m \<Rightarrow> closing env (Some m)
           | Exits m \<Rightarrow> closing env None
           | Returns u \<Rightarrow>
               (case extract_result env of
                  Raises m \<Rightarrow> closing env (Some m)
                | Exits m \<Rightarrow> closing env None
                | Returns rs \<Rightarrow> None))))"

definition extractor_raises :: "extractor_env \<Rightarrow> pystr option" where
  "extractor_raises env =
     (case leads_result env of Raises m \<Rightarrow> Some m | Exits m \<Rightarrow> None | Returns x \<Rightarrow> None)"

text \<open>Every call of the run returns, with the records given.\<close>

definition scraper_returns :: "scraper_env \<Rightarrow> row list option" where
  "scraper_returns env =
     (if start_print env = Returns () \<and> init_result env = Returns () \<and>
         search_result env = Returns () \<and> done_print env = Returns () \<and>
         stats_print env = Returns () \<and> close_result env = Returns ()
      then (case extract_result env of Returns rs \<Rightarrow> Some rs | _ \<Rightarrow> None)
      else None)"

definition extractor_returns :: "extractor_env \<Rightarrow> (row list \<times> (string \<times> int) list) option" where
  "extractor_returns env = (case leads_result env of Returns x \<Rightarrow> Some x | _ \<Rightarrow> None)"

section \<open>A reader for CSV text\<close>






















section \<open>Example runs\<close>

text \<open>Concrete requests, worlds and runs, used to evaluate the theorems below.\<close>

definition no_int :: "pystr \<Rightarrow> int option" where
  "no_int s = None"

definition demo_request :: json where
  "demo_request = JDict [(''location'', JStr (ascii ''Austin'')),
     (''business_type'', JStr (ascii ''Cafes'')), (''max_results'', JInt 10)]"

text \<open>The second record's name ends in \<^verbatim>\<open>U+6771\<close> and \<^verbatim>\<open>U+1F600\<close>.\<close>

definition demo_rows :: "row list" where
  "demo_rows =
     [[(''name'', PStr (ascii ''Joe, the \"Baker\"'')), (''website'', PNone),
       (''email'', PStr (ascii ''joe@bakery.test''))],
      [(''name'', PStr (ascii ''Cup '' @ [26481, 128512])),
       (''website'', PStr (ascii ''http://cup.test'')), (''phone'', PStr [])]]"

definition env_ok :: scraper_env where
  "env_ok = \<lparr>start_print = Returns (), init_result = Returns (), search_result = Returns (),
     extract_result = Returns demo_rows, done_print = Returns (), stats_print = Returns (),
     close_result = Returns (), scraper_clock = ascii ''2024-01-01T00:05:00''\<rparr>"

definition env_fail :: scraper_env where
  "env_fail = env_ok\<lparr>search_result := Raises (ascii ''timeout'')\<rparr>"

text \<open>The standard output is closed while the job runs: the \<^verbatim>\<open>print\<close> of line 100 raises
  \<^verbatim>\<open>ValueError\<close>.\<close>

definition env_slip :: scraper_env where
  "env_slip = env_ok\<lparr>done_print := Raises (ascii ''I/O operation on closed file.'')\<rparr>"

definition demo_job :: ScrapingJob where
  "demo_job = new_ScrapingJob (ascii ''job-1'') (ascii ''Austin'') [] [] (ascii ''Cafes'') 10
     (ascii ''2024-01-01T00:00:00'')"

definition submitted :: scrape_system where
  "submitted = scrape_exec no_int
     [Post demo_request (ascii ''job-1'') (ascii ''2024-01-01T00:00:00'')] init_system"

definition done_ok :: scrape_system where
  "done_ok = scrape_exec no_int (replicate 16 (Run 0 env_ok)) submitted"

definition done_failed :: scrape_system where
  "done_failed = scrape_exec no_int (replicate 10 (Run 0 env_fail)) submitted"

definition slip_completed :: scrape_system where
  "slip_completed = scrape_exec no_int (replicate 13 (Run 0 env_slip)) submitted"

definition slip_done :: scrape_system where
  "slip_done = scrape_exec no_int (replicate 5 (Run 0 env_slip)) slip_completed"

definition demo_extract_request :: json where
  "demo_extract_request = JDict [(''city'', JStr (ascii ''Austin, USA'')),
     (''industries'', JList [JStr (ascii ''Technology & Software'')]), (''maxResults'', JInt 10)]"

definition demo_leads :: "row list" where
  "demo_leads =
     [[(''name'', PStr (ascii ''Acme Software'')), (''industry'', PStr (ascii ''Technology & Software'')),
       (''location'', PStr (ascii ''1, Main St'')), (''website'', PStr (ascii ''acme.test'')),
       (''phone'', PStr []), (''revenue'', PStr (ascii ''$1M-5M'')),
       (''emails_found'', PStr (ascii ''a@acme.test; b@acme.test'')),
       (''extraction_date'', PStr (ascii ''2024-01-01''))]]"

definition demo_stats :: "(string \<times> int) list" where
  "demo_stats = [(''total_found'', 1), (''with_emails'', 1), (''with_websites'', 1),
     (''with_phones'', 0), (''with_addresses'', 1)]"

definition xenv_ok :: extractor_env where
  "xenv_ok = \<lparr>leads_result = Returns (demo_leads, demo_stats),
     extractor_clock = ascii ''2024-01-01T00:05:00''\<rparr>"

definition xenv_fail :: extractor_env where
  "xenv_fail = \<lparr>leads_result = Raises (ascii ''bad element''),
     extractor_clock = ascii ''2024-01-01T00:05:00''\<rparr>"

definition demo_xjob :: ExtractionJob where
  "demo_xjob = new_ExtractionJob (ascii ''job-7'') (ascii ''Austin, USA'')
     (JList [JStr (ascii ''Technology & Software'')]) 10 (ascii ''2024-01-01T00:00:00'')"

definition xsubmitted :: extract_system where
  "xsubmitted = extract_exec no_int
     [Post demo_extract_request (ascii ''job-7'') (ascii ''2024-01-01T00:00:00'')] init_system"


definition xdone_failed :: extract_system where
  "xdone_failed = extract_exec no_int (replicate 8 (Run 0 xenv_fail)) xsubmitted"

definition demo_job2 :: ScrapingJob where
  "demo_job2 = new_ScrapingJob (ascii ''job-2'') (ascii ''Austin'') [] [] (ascii ''Cafes'') 10
     (ascii ''2024-01-01T00:01:00'')"

definition two_submitted :: scrape_system where
  "two_submitted = scrape_exec no_int
     [Post demo_request (ascii ''job-1'') (ascii ''2024-01-01T00:00:00''),
      Post demo_request (ascii ''job-2'') (ascii ''2024-01-01T00:01:00'')] init_system"

definition two_failing :: scrape_system where
  "two_failing = scrape_exec no_int (replicate 7 (Run 0 env_fail)) two_submitted"

definition two_failed :: scrape_system where
  "two_failed = scrape_exec no_int (replicate 3 (Run 0 env_fail)) two_failing"

definition bad_request :: json where
  "bad_request = JDict [(''location'', JStr (ascii ''Austin'')),
     (''business_type'', JStr (ascii ''Cafes'')), (''max_results'', JNull)]"

definition blank_request :: json where
  "blank_request = JDict [(''location'', JStr (ascii ''   '')),
     (''business_type'', JStr (ascii ''Cafes'')), (''max_results'', JInt 10)]"

definition bad_extract_request :: json where
  "bad_extract_request = JDict [(''city'', JStr (ascii ''Austin, USA'')),
     (''industries'', JList [JStr (ascii ''Technology & Software'')]), (''maxResults'', JNull)]"

definition blank_extract_request :: json where
  "blank_extract_request = JDict [(''city'', JStr (ascii ''Austin, USA'')), (''industries'', JList []),
     (''maxResults'', JInt 10)]"




section \<open>Literals\<close>

lemma ascii_inject [simp]: "(ascii s = ascii t) = (s = t)"
  by (simp add: ascii_def inj_map_eq_map inj_of_char)

lemma ascii_Nil [simp]: "ascii [] = []"
  by (simp add: ascii_def)

lemma ascii_is_Nil [simp]: "(ascii s = []) = (s = [])"
  by (simp add: ascii_def)

section \<open>Invariants of the running process: lemmas\<close>

lemma scrape_step_ok:
  "scrape_ok pc j \<Longrightarrow> scrape_ok (fst (run_scraping_job_step env pc j)) (snd (run_scraping_job_step env pc j))"
  by (cases pc) (auto split: outcome.splits)

lemma scrape_step_status:
  "scrape_ok pc j \<Longrightarrow> status (snd (run_scraping_job_step env pc j)) = status j \<or>
     forward (status j) (status (snd (run_scraping_job_step env pc j))) \<or>
     (\<exists>m. pc = S107 m) \<and> status j = Completed \<and> status (snd (run_scraping_job_step env pc j)) = Failed"
  by (cases pc) (auto split: outcome.splits)

lemma upt_update_same: "i < n \<Longrightarrow> [0..<n][i := i] = [0..<n]"
  by (simp add: list_update_same_conv)

lemma run_thread_wf:
  assumes step: "\<And>env pc j. ok pc j \<Longrightarrow> ok (fst (stmt env pc j)) (snd (stmt env pc j))"
    and wf: "wf_system ok \<sigma>"
  shows "wf_system ok (run_thread stmt i env \<sigma>)"
proof (cases "i < length (threads \<sigma>) \<and> fst (threads \<sigma> ! i) < length (heap \<sigma>)")
  case False
  then show ?thesis using wf by (auto simp: run_thread_def)
next
  case True
  from wf have m: "map fst (threads \<sigma>) = [0..<length (heap \<sigma>)]"
    by (simp add: wf_system_def)
  then have len: "length (threads \<sigma>) = length (heap \<sigma>)"
    by (metis length_map length_upt minus_nat.diff_0)
  have fi: "fst (threads \<sigma> ! i) = i"
    using True m by (metis add_0 nth_map nth_upt len)
  have okall: "\<forall>k<length (heap \<sigma>). ok (snd (threads \<sigma> ! k)) (heap \<sigma> ! k)"
    using wf by (simp add: wf_system_def)
  have tab: "\<forall>k r. table \<sigma> k = Some r \<longrightarrow> r < length (heap \<sigma>)"
    using wf by (simp add: wf_system_def)
  let ?nx = "stmt env (snd (threads \<sigma> ! i)) (heap \<sigma> ! i)"
  have eq: "run_thread stmt i env \<sigma> =
      \<sigma>\<lparr>heap := (heap \<sigma>)[i := snd ?nx], threads := (threads \<sigma>)[i := (i, fst ?nx)]\<rparr>"
    using True fi by (simp add: run_thread_def Let_def)
  have "map fst ((threads \<sigma>)[i := (i, fst ?nx)]) = [0..<length (heap \<sigma>)]"
    using m True len by (simp add: map_update upt_update_same)
  moreover have "\<forall>k<length (heap \<sigma>). ok (snd ((threads \<sigma>)[i := (i, fst ?nx)] ! k)) ((heap \<sigma>)[i := snd ?nx] ! k)"
    using okall step True len by (auto simp: nth_list_update)
  ultimately show ?thesis
    using tab by (simp add: eq wf_system_def)
qed

lemma run_thread_table [simp]: "table (run_thread stmt i env \<sigma>) = table \<sigma>"
  by (simp add: run_thread_def Let_def)

lemma run_thread_length [simp]: "length (heap (run_thread stmt i env \<sigma>)) = length (heap \<sigma>)"
  by (simp add: run_thread_def Let_def)

lemma run_thread_threads_length [simp]: "length (threads (run_thread stmt i env \<sigma>)) = length (threads \<sigma>)"
  by (simp add: run_thread_def Let_def)

lemma start_scraping_cases:
  "start_scraping P data uuid now \<sigma> = (resp, \<sigma>') \<Longrightarrow>
     (http_code resp \<noteq> 200 \<and> \<sigma>' = \<sigma>) \<or>
     (\<exists>loc ctry st btype maxr.
        get_strip data ''location'' = Inr loc \<and> get_strip data ''country'' = Inr ctry \<and>
        get_strip data ''state'' = Inr st \<and> get_strip data ''business_type'' = Inr btype \<and>
        get_int P data ''max_results'' 50 = Inr maxr \<and>
        loc \<noteq> [] \<and> btype \<noteq> [] \<and> maxr \<in> {10, 20, 50, 80, 100} \<and>
        resp = Json 200 (JDict [(''success'', JBool True), (''job_id'', JStr uuid),
              (''message'', JStr (ascii ''Scraping started with email extraction enabled''))]) \<and>
        \<sigma>' = \<sigma>\<lparr>heap := heap \<sigma> @ [new_ScrapingJob uuid loc ctry st btype maxr now],
             table := (table \<sigma>)(uuid \<mapsto> length (heap \<sigma>)),
             threads := threads \<sigma> @ [(length (heap \<sigma>), S45)]\<rparr>)"
  by (auto simp: start_scraping_def split: sum.splits if_splits)

lemma wf_alloc:
  assumes wf: "wf_system ok \<sigma>" and new: "ok pc0 j0"
  shows "wf_system ok (\<sigma>\<lparr>heap := heap \<sigma> @ [j0], table := (table \<sigma>)(uuid \<mapsto> length (heap \<sigma>)),
             threads := threads \<sigma> @ [(length (heap \<sigma>), pc0)]\<rparr>)"
proof -
  from wf have m: "map fst (threads \<sigma>) = [0..<length (heap \<sigma>)]"
    by (simp add: wf_system_def)
  then have len: "length (threads \<sigma>) = length (heap \<sigma>)"
    by (metis length_map length_upt minus_nat.diff_0)
  show ?thesis
    using wf new len by (auto simp: wf_system_def nth_append less_Suc_eq)
qed

lemma start_scraping_wf:
  "wf_system scrape_ok \<sigma> \<Longrightarrow> wf_system scrape_ok (snd (start_scraping P data uuid now \<sigma>))"
  using start_scraping_cases [of P data uuid now \<sigma> "fst (start_scraping P data uuid now \<sigma>)" "snd (start_scraping P data uuid now \<sigma>)"]
  by (auto intro!: wf_alloc simp: new_ScrapingJob_def)

lemma scrape_event_wf: "wf_system scrape_ok \<sigma> \<Longrightarrow> wf_system scrape_ok (scrape_event P e \<sigma>)"
  by (cases e) (auto intro: start_scraping_wf run_thread_wf scrape_step_ok)

lemma scrape_exec_wf: "wf_system scrape_ok \<sigma> \<Longrightarrow> wf_system scrape_ok (scrape_exec P evs \<sigma>)"
  unfolding scrape_exec_def by (induction evs arbitrary: \<sigma>) (auto intro: scrape_event_wf)

lemma wf_init: "wf_system ok init_system"
  by (simp add: wf_system_def init_system_def)

lemma extract_step_ok:
  "extract_ok pc j \<Longrightarrow> extract_ok (fst (run_extraction_step env pc j)) (snd (run_extraction_step env pc j))"
  by (cases pc) (auto split: outcome.splits)

lemma extract_step_forward:
  "extract_ok pc j \<Longrightarrow> status (snd (run_extraction_step env pc j)) = status j \<or>
     forward (status j) (status (snd (run_extraction_step env pc j)))"
  by (cases pc) (auto split: outcome.splits)

lemma start_extraction_cases:
  "start_extraction P data uuid now \<sigma> = (resp, \<sigma>') \<Longrightarrow>
     (http_code resp \<noteq> 200 \<and> \<sigma>' = \<sigma>) \<or>
     (\<exists>cty inds maxr.
        get_strip data ''city'' = Inr cty \<and> py_get data ''industries'' (JList []) = Inr inds \<and>
        get_int P data ''maxResults'' 250 = Inr maxr \<and>
        cty \<noteq> [] \<and> truthy inds \<and>
        resp = Json 200 (JDict [(''success'', JBool True), (''job_id'', JStr uuid),
              (''message'', JStr (ascii ''Extraction started''))]) \<and>
        \<sigma>' = \<sigma>\<lparr>heap := heap \<sigma> @ [new_ExtractionJob uuid cty inds maxr now],
             table := (table \<sigma>)(uuid \<mapsto> length (heap \<sigma>)),
             threads := threads \<sigma> @ [(length (heap \<sigma>), E43)]\<rparr>)"
  by (auto simp: start_extraction_def split: sum.splits if_splits)

lemma start_extraction_wf:
  "wf_system extract_ok \<sigma> \<Longrightarrow> wf_system extract_ok (snd (start_extraction P data uuid now \<sigma>))"
  using start_extraction_cases [of P data uuid now \<sigma> "fst (start_extraction P data uuid now \<sigma>)" "snd (start_extraction P data uuid now \<sigma>)"]
  by (auto intro!: wf_alloc simp: new_ExtractionJob_def)

lemma extract_event_wf: "wf_system extract_ok \<sigma> \<Longrightarrow> wf_system extract_ok (extract_event P e \<sigma>)"
  by (cases e) (auto intro: start_extraction_wf run_thread_wf extract_step_ok)

lemma extract_exec_wf: "wf_system extract_ok \<sigma> \<Longrightarrow> wf_system extract_ok (extract_exec P evs \<sigma>)"
  unfolding extract_exec_def by (induction evs arbitrary: \<sigma>) (auto intro: extract_event_wf)

lemma wf_threads_length: "wf_system ok \<sigma> \<Longrightarrow> length (threads \<sigma>) = length (heap \<sigma>)"
  unfolding wf_system_def by (metis length_map length_upt minus_nat.diff_0)

lemma wf_thread_target: "wf_system ok \<sigma> \<Longrightarrow> i < length (heap \<sigma>) \<Longrightarrow> fst (threads \<sigma> ! i) = i"
  unfolding wf_system_def by (metis add_0 nth_map nth_upt length_map length_upt minus_nat.diff_0)

lemma wf_thread_ok: "wf_system ok \<sigma> \<Longrightarrow> i < length (heap \<sigma>) \<Longrightarrow> ok (snd (threads \<sigma> ! i)) (heap \<sigma> ! i)"
  unfolding wf_system_def by simp

lemma filter_eq_upt: "r < n \<Longrightarrow> filter (\<lambda>x. x = r) [0..<n] = [r]"
  by (induction n) (auto simp: less_Suc_eq)

lemma wf_one_thread:
  assumes "wf_system ok \<sigma>" and "r < length (heap \<sigma>)"
  shows "length (filter (\<lambda>t. fst t = r) (threads \<sigma>)) = 1"
proof -
  have "length (filter (\<lambda>t. fst t = r) (threads \<sigma>)) = length (filter (\<lambda>x. x = r) (map fst (threads \<sigma>)))"
    by (simp add: filter_map comp_def)
  also have "\<dots> = length (filter (\<lambda>x. x = r) [0..<length (heap \<sigma>)])"
    using assms(1) by (simp add: wf_system_def)
  also have "\<dots> = 1"
    using assms(2) by (simp add: filter_eq_upt)
  finally show ?thesis .
qed

lemma run_thread_status:
  assumes wf: "wf_system ok \<sigma>" and r: "r < length (heap \<sigma>)"
    and fw: "\<And>env pc j. ok pc j \<Longrightarrow> status (snd (stmt env pc j)) = status j \<or> forward (status j) (status (snd (stmt env pc j)))"
  shows "status (heap (run_thread stmt i env \<sigma>) ! r) = status (heap \<sigma> ! r) \<or>
         forward (status (heap \<sigma> ! r)) (status (heap (run_thread stmt i env \<sigma>) ! r))"
proof (cases "i < length (threads \<sigma>) \<and> fst (threads \<sigma> ! i) < length (heap \<sigma>)")
  case False
  then show ?thesis by (auto simp: run_thread_def)
next
  case True
  then have i: "i < length (heap \<sigma>)" using wf by (simp add: wf_threads_length)
  have fi: "fst (threads \<sigma> ! i) = i" using wf i by (rule wf_thread_target)
  have ok: "ok (snd (threads \<sigma> ! i)) (heap \<sigma> ! i)" using wf i by (rule wf_thread_ok)
  show ?thesis
  proof (cases "r = i")
    case True
    then show ?thesis
      using fw [OF ok, of env] \<open>i < length (threads \<sigma>) \<and> fst (threads \<sigma> ! i) < length (heap \<sigma>)\<close> fi i
      by (simp add: run_thread_def Let_def)
  next
    case False
    then show ?thesis using fi by (simp add: run_thread_def Let_def)
  qed
qed

lemma scrape_event_heap_length: "length (heap \<sigma>) \<le> length (heap (scrape_event P e \<sigma>))"
proof (cases e)
  case (Post data uuid now)
  then show ?thesis
    using start_scraping_cases [of P data uuid now \<sigma> "fst (start_scraping P data uuid now \<sigma>)" "snd (start_scraping P data uuid now \<sigma>)"]
    by auto
next
  case (Run i env)
  then show ?thesis by simp
qed

lemma start_scraping_dom:
  "dom (table (snd (start_scraping P data uuid now \<sigma>))) =
     dom (table \<sigma>) \<union> set (issued_id (fst (start_scraping P data uuid now \<sigma>)))"
  by (auto simp: start_scraping_def error_body_def split: sum.splits if_splits)

lemma start_extraction_dom:
  "dom (table (snd (start_extraction P data uuid now \<sigma>))) =
     dom (table \<sigma>) \<union> set (issued_id (fst (start_extraction P data uuid now \<sigma>)))"
  by (auto simp: start_extraction_def error_body_def split: sum.splits if_splits)

lemma scrape_exec_dom:
  "dom (table (scrape_exec P evs \<sigma>)) = dom (table \<sigma>) \<union> set (scrape_issued P evs \<sigma>)"
proof (induction evs arbitrary: \<sigma>)
  case Nil
  then show ?case by (simp add: scrape_exec_def)
next
  case (Cons e evs)
  have step: "scrape_exec P (e # evs) \<sigma> = scrape_exec P evs (scrape_event P e \<sigma>)"
    by (simp add: scrape_exec_def)
  show ?case
  proof (cases e)
    case (Post data uuid now)
    then show ?thesis
      using Cons.IH [of "snd (start_scraping P data uuid now \<sigma>)"] start_scraping_dom [of P data uuid now \<sigma>]
      unfolding step by (simp add: Un_assoc)
  next
    case (Run i env)
    then show ?thesis
      using Cons.IH [of "run_thread run_scraping_job_step i env \<sigma>"] unfolding step by simp
  qed
qed

lemma extract_exec_dom:
  "dom (table (extract_exec P evs \<sigma>)) = dom (table \<sigma>) \<union> set (extract_issued P evs \<sigma>)"
proof (induction evs arbitrary: \<sigma>)
  case Nil
  then show ?case by (simp add: extract_exec_def)
next
  case (Cons e evs)
  have step: "extract_exec P (e # evs) \<sigma> = extract_exec P evs (extract_event P e \<sigma>)"
    by (simp add: extract_exec_def)
  show ?case
  proof (cases e)
    case (Post data uuid now)
    then show ?thesis
      using Cons.IH [of "snd (start_extraction P data uuid now \<sigma>)"] start_extraction_dom [of P data uuid now \<sigma>]
      unfolding step by (simp add: Un_assoc)
  next
    case (Run i env)
    then show ?thesis
      using Cons.IH [of "run_thread run_extraction_step i env \<sigma>"] unfolding step by simp
  qed
qed

lemma lookup_job_None: "table \<sigma> jid = None \<Longrightarrow> lookup_job \<sigma> jid = None"
  by (simp add: lookup_job_def)

lemma lookup_job_wf: "wf_system ok \<sigma> \<Longrightarrow> table \<sigma> jid = Some r \<Longrightarrow> lookup_job \<sigma> jid = Some (heap \<sigma> ! r)"
  by (simp add: lookup_job_def wf_system_def)

lemma count_with_filter: "count_with k rows = int (length (filter (field_nonempty k) rows))"
proof (induction rows)
  case Nil
  then show ?case by (simp add: count_with_def)
next
  case (Cons r rows)
  have "pyval_truthy (dict_get r k PNone) = field_nonempty k r"
    by (simp add: dict_get_def field_nonempty_def split: option.splits pyval.splits)
  with Cons show ?case by (simp add: count_with_def)
qed

lemma extract_event_heap_length: "length (heap \<sigma>) \<le> length (heap (extract_event P e \<sigma>))"
proof (cases e)
  case (Post data uuid now)
  then show ?thesis
    using start_extraction_cases [of P data uuid now \<sigma> "fst (start_extraction P data uuid now \<sigma>)" "snd (start_extraction P data uuid now \<sigma>)"]
    by auto
next
  case (Run i env)
  then show ?thesis by simp
qed

lemma extract_event_status:
  assumes wf: "wf_system extract_ok \<sigma>" and r: "r < length (heap \<sigma>)"
  shows "status (heap (extract_event P e \<sigma>) ! r) = status (heap \<sigma> ! r) \<or>
         forward (status (heap \<sigma> ! r)) (status (heap (extract_event P e \<sigma>) ! r))"
proof (cases e)
  case (Post data uuid now)
  then show ?thesis
    using r start_extraction_cases [of P data uuid now \<sigma> "fst (start_extraction P data uuid now \<sigma>)" "snd (start_extraction P data uuid now \<sigma>)"]
    by (auto simp: nth_append)
next
  case (Run i env)
  then show ?thesis
    using run_thread_status [OF wf r, of run_extraction_step i env] extract_step_forward by simp
qed

lemma scrape_event_new_pending:
  assumes "length (heap \<sigma>) \<le> r" and "r < length (heap (scrape_event P e \<sigma>))"
  shows "status (heap (scrape_event P e \<sigma>) ! r) = Pending"
proof (cases e)
  case (Post data uuid now)
  then show ?thesis
    using assms start_scraping_cases [of P data uuid now \<sigma> "fst (start_scraping P data uuid now \<sigma>)" "snd (start_scraping P data uuid now \<sigma>)"]
    by (auto simp: nth_append new_ScrapingJob_def less_Suc_eq)
next
  case (Run i env)
  then show ?thesis using assms by simp
qed

lemma extract_event_new_pending:
  assumes "length (heap \<sigma>) \<le> r" and "r < length (heap (extract_event P e \<sigma>))"
  shows "status (heap (extract_event P e \<sigma>) ! r) = Pending"
proof (cases e)
  case (Post data uuid now)
  then show ?thesis
    using assms start_extraction_cases [of P data uuid now \<sigma> "fst (start_extraction P data uuid now \<sigma>)" "snd (start_extraction P data uuid now \<sigma>)"]
    by (auto simp: nth_append new_ExtractionJob_def less_Suc_eq)
next
  case (Run i env)
  then show ?thesis using assms by simp
qed

lemma scrape_event_table:
  assumes "table \<sigma> jid = Some r" and "\<forall>data now. e \<noteq> Post data jid now"
  shows "table (scrape_event P e \<sigma>) jid = Some r"
proof (cases e)
  case (Post data uuid now)
  then have "uuid \<noteq> jid" using assms(2) by auto
  then show ?thesis
    using Post assms(1) start_scraping_cases [of P data uuid now \<sigma> "fst (start_scraping P data uuid now \<sigma>)" "snd (start_scraping P data uuid now \<sigma>)"]
    by auto
next
  case (Run i env)
  then show ?thesis using assms by simp
qed

lemma extract_event_table:
  assumes "table \<sigma> jid = Some r" and "\<forall>data now. e \<noteq> Post data jid now"
  shows "table (extract_event P e \<sigma>) jid = Some r"
proof (cases e)
  case (Post data uuid now)
  then have "uuid \<noteq> jid" using assms(2) by auto
  then show ?thesis
    using Post assms(1) start_extraction_cases [of P data uuid now \<sigma> "fst (start_extraction P data uuid now \<sigma>)" "snd (start_extraction P data uuid now \<sigma>)"]
    by auto
next
  case (Run i env)
  then show ?thesis using assms by simp
qed

lemma scrape_reach_wf: "wf_system scrape_ok (scrape_exec P evs init_system)"
  by (rule scrape_exec_wf) (rule wf_init)

lemma extract_reach_wf: "wf_system extract_ok (extract_exec P evs init_system)"
  by (rule extract_exec_wf) (rule wf_init)

lemma get_job_status_found: "lookup_job \<sigma> jid = Some j \<Longrightarrow> http_code (get_job_status \<sigma> jid) \<noteq> 404"
  by (simp add: get_job_status_def Let_def split: option.splits)

lemma extraction_get_job_status_found:
  "lookup_job \<sigma> jid = Some j \<Longrightarrow> http_code (extraction_get_job_status \<sigma> jid) \<noteq> 404"
  by (simp add: extraction_get_job_status_def Let_def split: option.splits)

lemma wf_lookup_dom: "wf_system ok \<sigma> \<Longrightarrow> jid \<in> dom (table \<sigma>) \<Longrightarrow> \<exists>j. lookup_job \<sigma> jid = Some j"
  by (auto simp: lookup_job_def wf_system_def)

lemma scrape_stays_found:
  assumes "wf_system scrape_ok \<sigma>" and "jid \<in> dom (table \<sigma>)"
  shows "http_code (get_job_status (scrape_exec P evs \<sigma>) jid) \<noteq> 404"
proof -
  have "wf_system scrape_ok (scrape_exec P evs \<sigma>)"
    using assms(1) by (rule scrape_exec_wf)
  moreover have "jid \<in> dom (table (scrape_exec P evs \<sigma>))"
    using assms(2) by (simp add: scrape_exec_dom)
  ultimately obtain j where "lookup_job (scrape_exec P evs \<sigma>) jid = Some j"
    using wf_lookup_dom by blast
  then show ?thesis by (rule get_job_status_found)
qed

lemma extract_stays_found:
  assumes "wf_system extract_ok \<sigma>" and "jid \<in> dom (table \<sigma>)"
  shows "http_code (extraction_get_job_status (extract_exec P evs \<sigma>) jid) \<noteq> 404"
proof -
  have "wf_system extract_ok (extract_exec P evs \<sigma>)"
    using assms(1) by (rule extract_exec_wf)
  moreover have "jid \<in> dom (table (extract_exec P evs \<sigma>))"
    using assms(2) by (simp add: extract_exec_dom)
  ultimately obtain j where "lookup_job (extract_exec P evs \<sigma>) jid = Some j"
    using wf_lookup_dom by blast
  then show ?thesis by (rule extraction_get_job_status_found)
qed

lemma start_scraping_registers:
  assumes wf: "wf_system scrape_ok \<sigma>"
    and ok: "http_code (fst (start_scraping P data uuid now \<sigma>)) = 200"
  shows "fst (start_scraping P data uuid now \<sigma>) =
           Json 200 (JDict [(''success'', JBool True), (''job_id'', JStr uuid),
             (''message'', JStr (ascii ''Scraping started with email extraction enabled''))])"
    and "lookup_job (snd (start_scraping P data uuid now \<sigma>)) uuid =
           Some (heap (snd (start_scraping P data uuid now \<sigma>)) ! length (heap \<sigma>))"
    and "status (heap (snd (start_scraping P data uuid now \<sigma>)) ! length (heap \<sigma>)) = Pending"
    and "job_id (heap (snd (start_scraping P data uuid now \<sigma>)) ! length (heap \<sigma>)) = uuid"
    and "threads (snd (start_scraping P data uuid now \<sigma>)) = threads \<sigma> @ [(length (heap \<sigma>), S45)]"
    and "uuid \<in> dom (table (snd (start_scraping P data uuid now \<sigma>)))"
  using ok start_scraping_cases [of P data uuid now \<sigma> "fst (start_scraping P data uuid now \<sigma>)" "snd (start_scraping P data uuid now \<sigma>)"]
  by (auto simp: lookup_job_def new_ScrapingJob_def)

lemma start_extraction_registers:
  assumes wf: "wf_system extract_ok \<sigma>"
    and ok: "http_code (fst (start_extraction P data uuid now \<sigma>)) = 200"
  shows "fst (start_extraction P data uuid now \<sigma>) =
           Json 200 (JDict [(''success'', JBool True), (''job_id'', JStr uuid),
             (''message'', JStr (ascii ''Extraction started''))])"
    and "lookup_job (snd (start_extraction P data uuid now \<sigma>)) uuid =
           Some (heap (snd (start_extraction P data uuid now \<sigma>)) ! length (heap \<sigma>))"
    and "status (heap (snd (start_extraction P data uuid now \<sigma>)) ! length (heap \<sigma>)) = Pending"
    and "job_id (heap (snd (start_extraction P data uuid now \<sigma>)) ! length (heap \<sigma>)) = uuid"
    and "threads (snd (start_extraction P data uuid now \<sigma>)) = threads \<sigma> @ [(length (heap \<sigma>), E43)]"
    and "uuid \<in> dom (table (snd (start_extraction P data uuid now \<sigma>)))"
  using ok start_extraction_cases [of P data uuid now \<sigma> "fst (start_extraction P data uuid now \<sigma>)" "snd (start_extraction P data uuid now \<sigma>)"]
  by (auto simp: lookup_job_def new_ExtractionJob_def)

lemma run_extraction_raises:
  "extractor_raises env = Some m \<Longrightarrow>
     run_extraction env job = (E_done, job\<lparr>status := Failed, progress := 0, error_message := Some m\<rparr>)"
  by (auto simp: extractor_raises_def run_extraction_def numeral_eq_Suc split: outcome.splits)

lemma run_extraction_returns:
  "extractor_returns env = Some (leads, st) \<Longrightarrow>
     run_extraction env job = (E_done, job\<lparr>status := Completed, progress := 100,
        results := leads, completed_at := Some (extractor_clock env), stats := st\<rparr>)"
  by (auto simp: extractor_returns_def run_extraction_def numeral_eq_Suc split: outcome.splits)

lemma scrape_ok_completed_at:
  "scrape_ok pc j \<Longrightarrow>
     (status j = Pending \<or> status j = Running \<longrightarrow> completed_at j = None) \<and>
     (pc = S_done \<and> status j = Completed \<longrightarrow> completed_at j \<noteq> None)"
  by (cases pc) auto

lemma scrape_step_completed_at:
  "completed_at (snd (run_scraping_job_step env pc job)) =
     (if pc = S92 then Some (scraper_clock env) else completed_at job)"
  by (cases pc) (auto split: outcome.splits)

lemma extract_step_completed_at:
  "completed_at (snd (run_extraction_step env pc job)) =
     (if pc = E59 then Some (extractor_clock env) else completed_at job)"
  by (cases pc) (auto split: outcome.splits)

lemma extract_ok_completed_at:
  "extract_ok pc j \<Longrightarrow>
     (completed_at j \<noteq> None \<longrightarrow> status j = Completed \<and> pc = E_done) \<and>
     (status j = Failed \<longrightarrow> completed_at j = None) \<and>
     (pc = E_done \<and> status j = Completed \<longrightarrow> completed_at j \<noteq> None)"
  by (cases pc) auto

lemma run_thread_others:
  "r \<noteq> fst (threads \<sigma> ! i) \<Longrightarrow> heap (run_thread stmt i env \<sigma>) ! r = heap \<sigma> ! r"
  by (simp add: run_thread_def Let_def)

lemma failed_job_views:
  "lookup_job \<sigma> jid = Some j \<Longrightarrow> status j = Failed \<Longrightarrow>
     get_job_status \<sigma> jid =
       Json 200 (JDict [(''success'', JBool True), (''job_id'', JStr jid),
         (''status'', JStr (ascii ''failed'')), (''progress'', JInt (progress j)),
         (''created_at'', JStr (created_at j)),
         (''error_message'', (case error_message j of None \<Rightarrow> JNull | Some m \<Rightarrow> JStr m))]) \<and>
     get_results \<sigma> jid = Json 400 (error_body ''Job not completed yet'') \<and>
     download_csv stamp \<sigma> jid = Json 400 (error_body ''Job not completed yet'')"
  by (simp add: get_job_status_def get_results_def download_csv_def)

lemma scraping_steps_done: "scraping_steps n env (S_done, j) = (S_done, j)"
  by (induction n) simp_all

lemma scraping_steps_add:
  "scraping_steps (m + n) env c = scraping_steps n env (scraping_steps m env c)"
  by (induction m arbitrary: c) simp_all

lemma handler_run:
  "scraping_steps 3 env (S107 m, job) =
     (S_done, job\<lparr>status := Failed, progress := 0, error_message := Some m\<rparr>)"
  by (simp add: numeral_eq_Suc)

lemma closing_run:
  assumes "closing env pend = Some m"
    and "pc = S104_raised x \<and> pend = Some x \<or> pc = S104_exiting \<and> pend = None"
  shows "scraping_steps 1 env (pc, job) = (S107 m, job)"
  using assms by (auto simp: closing_def split: outcome.splits)

lemma run_scraping_job_raises:
  assumes r: "scraper_raises env = Some m"
  shows "run_scraping_job env job = (S_done, job\<lparr>status := Failed, progress := 0, error_message := Some m\<rparr>)"
proof -
  have fin: "scraping_steps (k + 3 + n) env (S45, job) =
      (S_done, job'\<lparr>status := Failed, progress := 0, error_message := Some m\<rparr>)"
    if "scraping_steps k env (S45, job) = (S107 m, job')" for k n job'
    using that by (simp add: scraping_steps_add handler_run scraping_steps_done)
  show ?thesis
  proof (cases "start_print env")
    case (Raises x)
    then have "scraping_steps 3 env (S45, job) = (S107 m, job\<lparr>status := Running, progress := 10\<rparr>)"
      using r by (simp add: scraper_raises_def numeral_eq_Suc)
    from fin [OF this, of 13] show ?thesis by (simp add: run_scraping_job_def)
  next
    case (Exits x)
    then show ?thesis using r by (simp add: scraper_raises_def)
  next
    case sp: (Returns u)
    show ?thesis
    proof (cases "init_result env")
      case (Raises x)
      then have "scraping_steps 4 env (S45, job) = (S107 m, job\<lparr>status := Running, progress := 10\<rparr>)"
        using r sp by (simp add: scraper_raises_def numeral_eq_Suc)
      from fin [OF this, of 12] show ?thesis by (simp add: run_scraping_job_def)
    next
      case (Exits x)
      then show ?thesis using r sp by (simp add: scraper_raises_def)
    next
      case ir: (Returns v)
      have s5: "scraping_steps 5 env (S45, job) = (S67, job\<lparr>status := Running, progress := 20\<rparr>)"
        using sp ir by (simp add: numeral_eq_Suc)
      show ?thesis
      proof (cases "search_result env")
        case (Raises x)
        then have c: "closing env (Some x) = Some m"
          using r sp ir by (simp add: scraper_raises_def)
        have "scraping_steps (5 + 1 + 1) env (S45, job) = (S107 m, job\<lparr>status := Running, progress := 20\<rparr>)"
          unfolding scraping_steps_add s5 using Raises closing_run [OF c, of "S104_raised x" x]
          by simp
        then have "scraping_steps 7 env (S45, job) = (S107 m, job\<lparr>status := Running, progress := 20\<rparr>)"
          by simp
        from fin [OF this, of 9] show ?thesis by (simp add: run_scraping_job_def)
      next
        case (Exits x)
        then have c: "closing env None = Some m"
          using r sp ir by (simp add: scraper_raises_def)
        have "scraping_steps (5 + 1 + 1) env (S45, job) = (S107 m, job\<lparr>status := Running, progress := 20\<rparr>)"
          unfolding scraping_steps_add s5 using Exits closing_run [OF c, of S104_exiting]
          by simp
        then have "scraping_steps 7 env (S45, job) = (S107 m, job\<lparr>status := Running, progress := 20\<rparr>)"
          by simp
        from fin [OF this, of 9] show ?thesis by (simp add: run_scraping_job_def)
      next
        case sr: (Returns w)
        have s7: "scraping_steps 7 env (S45, job) = (S71, job\<lparr>status := Running, progress := 40\<rparr>)"
          using sp ir sr by (simp add: numeral_eq_Suc)
        show ?thesis
        proof (cases "extract_result env")
          case (Raises x)
          then have c: "closing env (Some x) = Some m"
            using r sp ir sr by (simp add: scraper_raises_def)
          have "scraping_steps (7 + 1 + 1) env (S45, job) = (S107 m, job\<lparr>status := Running, progress := 40\<rparr>)"
            unfolding scraping_steps_add s7 using Raises closing_run [OF c, of "S104_raised x" x]
            by simp
          then have "scraping_steps 9 env (S45, job) = (S107 m, job\<lparr>status := Running, progress := 40\<rparr>)"
            by simp
          from fin [OF this, of 7] show ?thesis by (simp add: run_scraping_job_def)
        next
          case (Exits x)
          then have c: "closing env None = Some m"
            using r sp ir sr by (simp add: scraper_raises_def)
          have "scraping_steps (7 + 1 + 1) env (S45, job) = (S107 m, job\<lparr>status := Running, progress := 40\<rparr>)"
            unfolding scraping_steps_add s7 using Exits closing_run [OF c, of S104_exiting]
            by simp
          then have "scraping_steps 9 env (S45, job) = (S107 m, job\<lparr>status := Running, progress := 40\<rparr>)"
            by simp
          from fin [OF this, of 7] show ?thesis by (simp add: run_scraping_job_def)
        next
          case (Returns rs)
          then show ?thesis using r sp ir sr by (simp add: scraper_raises_def)
        qed
      qed
    qed
  qed
qed

lemma run_scraping_job_returns:
  assumes "scraper_returns env = Some rs"
  shows "run_scraping_job env job = (S_done, job\<lparr>status := Completed, progress := 100,
        results := map clean_result rs, completed_at := Some (scraper_clock env)\<rparr>)"
proof -
  from assms have e: "start_print env = Returns ()" "init_result env = Returns ()"
    "search_result env = Returns ()" "done_print env = Returns ()"
    "stats_print env = Returns ()" "close_result env = Returns ()"
    by (simp_all add: scraper_returns_def split: if_splits)
  from assms have x: "extract_result env = Returns rs"
    by (simp add: scraper_returns_def split: if_splits outcome.splits)
  show ?thesis
    by (simp add: run_scraping_job_def numeral_eq_Suc e x)
qed

section \<open>Reading back what the writer wrote\<close>


















































section \<open>The example runs, evaluated\<close>

lemma submitted_eval:
  "submitted = \<lparr>heap = [demo_job], table = [ascii ''job-1'' \<mapsto> 0], threads = [(0, S45)]\<rparr>"
  by (simp add: submitted_def demo_job_def scrape_exec_def demo_request_def start_scraping_def
      get_strip_def get_int_def dict_get_def str_strip_def py_isspace_def ascii_def init_system_def)

lemma done_failed_eval:
  "done_failed = \<lparr>heap = [demo_job\<lparr>status := Failed, progress := 0, error_message := Some (ascii ''timeout'')\<rparr>],
     table = [ascii ''job-1'' \<mapsto> 0], threads = [(0, S_done)]\<rparr>"
  by (simp add: done_failed_def submitted_eval scrape_exec_def run_thread_def env_fail_def env_ok_def
      demo_job_def new_ScrapingJob_def numeral_eq_Suc)

lemma done_ok_eval:
  "done_ok = \<lparr>heap = [demo_job\<lparr>status := Completed, progress := 100,
       results := map clean_result demo_rows, completed_at := Some (ascii ''2024-01-01T00:05:00'')\<rparr>],
     table = [ascii ''job-1'' \<mapsto> 0], threads = [(0, S_done)]\<rparr>"
  by (simp add: done_ok_def submitted_eval scrape_exec_def run_thread_def env_ok_def
      demo_job_def new_ScrapingJob_def numeral_eq_Suc)

lemma xsubmitted_eval:
  "xsubmitted = \<lparr>heap = [demo_xjob], table = [ascii ''job-7'' \<mapsto> 0], threads = [(0, E43)]\<rparr>"
  by (simp add: xsubmitted_def demo_xjob_def extract_exec_def demo_extract_request_def
      start_extraction_def get_strip_def get_int_def dict_get_def str_strip_def py_isspace_def ascii_def
      init_system_def)

lemma xdone_failed_eval:
  "xdone_failed = \<lparr>heap = [demo_xjob\<lparr>status := Failed, progress := 0,
       error_message := Some (ascii ''bad element'')\<rparr>],
     table = [ascii ''job-7'' \<mapsto> 0], threads = [(0, E_done)]\<rparr>"
  by (simp add: xdone_failed_def xsubmitted_eval extract_exec_def run_thread_def xenv_fail_def
      demo_xjob_def new_ExtractionJob_def numeral_eq_Suc)


lemma clean_demo_rows:
  "map clean_result demo_rows =
     [[(''name'', PStr (ascii ''Joe, the \"Baker\"'')), (''rating'', PStr []), (''category'', PStr []),
       (''address'', PStr []), (''phone'', PStr []), (''website'', PNone),
       (''email'', PStr (ascii ''joe@bakery.test'')), (''linkedin'', PStr [])],
      [(''name'', PStr (ascii ''Cup '' @ [26481, 128512])), (''rating'', PStr []), (''category'', PStr []),
       (''address'', PStr []), (''phone'', PStr []), (''website'', PStr (ascii ''http://cup.test'')),
       (''email'', PStr []), (''linkedin'', PStr [])]]"
  by (simp add: demo_rows_def clean_result_def required_fields_def dict_get_def)

lemma env_fail_raises: "scraper_raises env_fail = Some (ascii ''timeout'')"
  by (simp add: scraper_raises_def closing_def env_fail_def env_ok_def)

lemma xenv_fail_raises: "extractor_raises xenv_fail = Some (ascii ''bad element'')"
  by (simp add: extractor_raises_def xenv_fail_def)

lemma env_ok_returns: "scraper_returns env_ok = Some demo_rows"
  by (simp add: scraper_returns_def env_ok_def)

lemma xenv_ok_returns: "extractor_returns xenv_ok = Some (demo_leads, demo_stats)"
  by (simp add: extractor_returns_def xenv_ok_def)

lemma two_submitted_eval:
  "two_submitted = \<lparr>heap = [demo_job, demo_job2], table = [ascii ''job-1'' \<mapsto> 0, ascii ''job-2'' \<mapsto> 1],
     threads = [(0, S45), (1, S45)]\<rparr>"
  by (simp add: two_submitted_def demo_job_def demo_job2_def scrape_exec_def demo_request_def
      start_scraping_def get_strip_def get_int_def dict_get_def str_strip_def py_isspace_def ascii_def
      init_system_def)

lemma two_failing_eval:
  "two_failing = \<lparr>heap = [demo_job\<lparr>status := Running, progress := 20\<rparr>, demo_job2],
     table = [ascii ''job-1'' \<mapsto> 0, ascii ''job-2'' \<mapsto> 1], threads = [(0, S107 (ascii ''timeout'')), (1, S45)]\<rparr>"
  by (simp add: two_failing_def two_submitted_eval scrape_exec_def run_thread_def env_fail_def env_ok_def
      demo_job_def new_ScrapingJob_def numeral_eq_Suc)

lemma two_failed_eval:
  "two_failed = \<lparr>heap = [demo_job\<lparr>status := Failed, progress := 0, error_message := Some (ascii ''timeout'')\<rparr>,
       demo_job2],
     table = [ascii ''job-1'' \<mapsto> 0, ascii ''job-2'' \<mapsto> 1], threads = [(0, S_done), (1, S45)]\<rparr>"
  by (simp add: two_failed_def two_failing_eval scrape_exec_def run_thread_def env_fail_def env_ok_def
      demo_job_def new_ScrapingJob_def numeral_eq_Suc)

lemma start_scraping_read_error:
  "get_strip data ''location'' = Inl e \<or> get_strip data ''country'' = Inl e \<or>
   get_strip data ''state'' = Inl e \<or> get_strip data ''business_type'' = Inl e \<or>
   get_int P data ''max_results'' 50 = Inl e \<Longrightarrow>
     http_code (fst (start_scraping P data uuid now \<sigma>)) = 500"
  by (auto simp: start_scraping_def split: sum.splits)

lemma start_extraction_read_error:
  "get_strip data ''city'' = Inl e \<or> py_get data ''industries'' (JList []) = Inl e \<or>
   get_int P data ''maxResults'' 250 = Inl e \<Longrightarrow>
     http_code (fst (start_extraction P data uuid now \<sigma>)) = 500"
  by (auto simp: start_extraction_def split: sum.splits)

lemma start_scraping_unchanged:
  "http_code (fst (start_scraping P data uuid now \<sigma>)) \<noteq> 200 \<Longrightarrow> snd (start_scraping P data uuid now \<sigma>) = \<sigma>"
  using start_scraping_cases [of P data uuid now \<sigma> "fst (start_scraping P data uuid now \<sigma>)" "snd (start_scraping P data uuid now \<sigma>)"]
  by auto

lemma start_extraction_unchanged:
  "http_code (fst (start_extraction P data uuid now \<sigma>)) \<noteq> 200 \<Longrightarrow> snd (start_extraction P data uuid now \<sigma>) = \<sigma>"
  using start_extraction_cases [of P data uuid now \<sigma> "fst (start_extraction P data uuid now \<sigma>)" "snd (start_extraction P data uuid now \<sigma>)"]
  by auto

lemma demo_request_reads:
  "get_strip demo_request ''location'' = Inr (ascii ''Austin'')"
  "get_strip demo_request ''country'' = Inr []"
  "get_strip demo_request ''state'' = Inr []"
  "get_strip demo_request ''business_type'' = Inr (ascii ''Cafes'')"
  "get_int no_int demo_request ''max_results'' 50 = Inr 10"
  by (simp_all add: demo_request_def get_strip_def get_int_def dict_get_def str_strip_def py_isspace_def ascii_def)

lemma blank_request_reads:
  "get_strip blank_request ''location'' = Inr []"
  "get_strip blank_request ''country'' = Inr []"
  "get_strip blank_request ''state'' = Inr []"
  "get_strip blank_request ''business_type'' = Inr (ascii ''Cafes'')"
  "get_int no_int blank_request ''max_results'' 50 = Inr 10"
  by (simp_all add: blank_request_def get_strip_def get_int_def dict_get_def str_strip_def py_isspace_def ascii_def)

lemma bad_request_reads: "get_int no_int bad_request ''max_results'' 50 = Inl TypeError"
  by (simp add: bad_request_def get_int_def dict_get_def)

lemma demo_extract_request_reads:
  "get_strip demo_extract_request ''city'' = Inr (ascii ''Austin, USA'')"
  "py_get demo_extract_request ''industries'' (JList []) = Inr (JList [JStr (ascii ''Technology & Software'')])"
  "get_int no_int demo_extract_request ''maxResults'' 250 = Inr 10"
  by (simp_all add: demo_extract_request_def get_strip_def get_int_def dict_get_def str_strip_def py_isspace_def ascii_def)

lemma blank_extract_request_reads:
  "get_strip blank_extract_request ''city'' = Inr (ascii ''Austin, USA'')"
  "py_get blank_extract_request ''industries'' (JList []) = Inr (JList [])"
  "get_int no_int blank_extract_request ''maxResults'' 250 = Inr 10"
  by (simp_all add: blank_extract_request_def get_strip_def get_int_def dict_get_def str_strip_def py_isspace_def ascii_def)

lemma bad_extract_request_reads: "get_int no_int bad_extract_request ''maxResults'' 250 = Inl TypeError"
  by (simp add: bad_extract_request_def get_int_def dict_get_def)


lemma slip_completed_eval:
  "slip_completed = \<lparr>heap = [demo_job\<lparr>status := Completed, progress := 100,
       results := map clean_result demo_rows, completed_at := Some (ascii ''2024-01-01T00:05:00'')\<rparr>],
     table = [ascii ''job-1'' \<mapsto> 0], threads = [(0, S100)]\<rparr>"
  by (simp add: slip_completed_def submitted_eval scrape_exec_def run_thread_def env_slip_def env_ok_def
      demo_job_def new_ScrapingJob_def numeral_eq_Suc)

lemma slip_done_eval:
  "slip_done = \<lparr>heap = [demo_job\<lparr>status := Failed, progress := 0,
       results := map clean_result demo_rows,
       error_message := Some (ascii ''I/O operation on closed file.''),
       completed_at := Some (ascii ''2024-01-01T00:05:00'')\<rparr>],
     table = [ascii ''job-1'' \<mapsto> 0], threads = [(0, S_done)]\<rparr>"
  by (simp add: slip_done_def slip_completed_eval scrape_exec_def run_thread_def env_slip_def env_ok_def
      demo_job_def new_ScrapingJob_def numeral_eq_Suc)



section \<open>The claims\<close>

text \<open>
  C1 (for every job the status only moves forward, pending to running to completed or
  failed, and never leaves completed or failed). \<^verbatim>\<open>run_scraping_job\<close> keeps running inside its
  \<^verbatim>\<open>try\<close> after it has marked the job completed (lines 95 to 104: two \<^verbatim>\<open>print\<close>s and
  \<^verbatim>\<open>scraper.close()\<close>), and an \<^verbatim>\<open>Exception\<close> raised there reaches the handler of line 106. In
  the example run the standard output is closed while the job runs: after thirteen statements
  the job is completed and the status endpoint reports it so, with \<^verbatim>\<open>completed_at\<close> set; the
  \<^verbatim>\<open>print\<close> of line 100 raises, \<^verbatim>\<open>scraper.close()\<close> runs, and the handler leaves the job
  failed, with progress 0 and \<^verbatim>\<open>completed_at\<close> still set: the status has left completed.
  \<^verbatim>\<open>run_extraction\<close> of flask\_backend\_api.py runs nothing after line 59, and its job stays
  completed.
\<close>

theorem completed_job_turns_failed:
  "lookup_job slip_completed (ascii ''job-1'') = Some (heap slip_completed ! 0)
   \<and> status (heap slip_completed ! 0) = Completed
   \<and> get_job_status slip_completed (ascii ''job-1'') =
       Json 200 (JDict [(''success'', JBool True), (''job_id'', JStr (ascii ''job-1'')),
         (''status'', JStr (ascii ''completed'')), (''progress'', JInt 100),
         (''created_at'', JStr (ascii ''2024-01-01T00:00:00'')),
         (''completed_at'', JStr (ascii ''2024-01-01T00:05:00'')),
         (''results_count'', JInt 2), (''emails_found'', JInt 1), (''websites_found'', JInt 1)])
   \<and> snd (threads slip_completed ! 0) = S100
   \<and> slip_done = scrape_exec no_int (replicate 5 (Run 0 env_slip)) slip_completed
   \<and> lookup_job slip_done (ascii ''job-1'') = Some (heap slip_done ! 0)
   \<and> status (heap slip_done ! 0) = Failed
   \<and> \<not> forward (status (heap slip_completed ! 0)) (status (heap slip_done ! 0))
   \<and> status (heap slip_done ! 0) \<noteq> status (heap slip_completed ! 0)
   \<and> progress (heap slip_done ! 0) = 0
   \<and> completed_at (heap slip_done ! 0) = Some (ascii ''2024-01-01T00:05:00'')
   \<and> get_job_status slip_done (ascii ''job-1'') =
       Json 200 (JDict [(''success'', JBool True), (''job_id'', JStr (ascii ''job-1'')),
         (''status'', JStr (ascii ''failed'')), (''progress'', JInt 0),
         (''created_at'', JStr (ascii ''2024-01-01T00:00:00'')),
         (''error_message'', JStr (ascii ''I/O operation on closed file.''))])
   \<and> run_scraping_job env_slip demo_job =
       (S_done, demo_job\<lparr>status := Failed, progress := 0, results := map clean_result demo_rows,
          error_message := Some (ascii ''I/O operation on closed file.''),
          completed_at := Some (ascii ''2024-01-01T00:05:00'')\<rparr>)
   \<and> run_extraction xenv_ok demo_xjob =
       (E_done, demo_xjob\<lparr>status := Completed, progress := 100, results := demo_leads,
          completed_at := Some (ascii ''2024-01-01T00:05:00''), stats := demo_stats\<rparr>)"
proof -
  have a: "lookup_job slip_completed (ascii ''job-1'') = Some (heap slip_completed ! 0)"
    "status (heap slip_completed ! 0) = Completed"
    "snd (threads slip_completed ! 0) = S100"
    by (simp_all add: slip_completed_eval lookup_job_def)
  have b: "get_job_status slip_completed (ascii ''job-1'') =
       Json 200 (JDict [(''success'', JBool True), (''job_id'', JStr (ascii ''job-1'')),
         (''status'', JStr (ascii ''completed'')), (''progress'', JInt 100),
         (''created_at'', JStr (ascii ''2024-01-01T00:00:00'')),
         (''completed_at'', JStr (ascii ''2024-01-01T00:05:00'')),
         (''results_count'', JInt 2), (''emails_found'', JInt 1), (''websites_found'', JInt 1)])"
    by (simp add: slip_completed_eval lookup_job_def get_job_status_def count_with_filter
        clean_demo_rows field_nonempty_def demo_job_def new_ScrapingJob_def)
  have c: "lookup_job slip_done (ascii ''job-1'') = Some (heap slip_done ! 0)"
    "status (heap slip_done ! 0) = Failed"
    "progress (heap slip_done ! 0) = 0"
    "completed_at (heap slip_done ! 0) = Some (ascii ''2024-01-01T00:05:00'')"
    by (simp_all add: slip_done_eval lookup_job_def)
  have d: "get_job_status slip_done (ascii ''job-1'') =
       Json 200 (JDict [(''success'', JBool True), (''job_id'', JStr (ascii ''job-1'')),
         (''status'', JStr (ascii ''failed'')), (''progress'', JInt 0),
         (''created_at'', JStr (ascii ''2024-01-01T00:00:00'')),
         (''error_message'', JStr (ascii ''I/O operation on closed file.''))])"
    by (simp add: slip_done_eval lookup_job_def get_job_status_def demo_job_def new_ScrapingJob_def)
  have e: "run_scraping_job env_slip demo_job =
       (S_done, demo_job\<lparr>status := Failed, progress := 0, results := map clean_result demo_rows,
          error_message := Some (ascii ''I/O operation on closed file.''),
          completed_at := Some (ascii ''2024-01-01T00:05:00'')\<rparr>)"
    by (simp add: run_scraping_job_def numeral_eq_Suc env_slip_def env_ok_def)
  have f: "run_extraction xenv_ok demo_xjob =
       (E_done, demo_xjob\<lparr>status := Completed, progress := 100, results := demo_leads,
          completed_at := Some (ascii ''2024-01-01T00:05:00''), stats := demo_stats\<rparr>)"
    by (simp add: run_extraction_def numeral_eq_Suc xenv_ok_def)
  show ?thesis
    using a b c d e f by (simp add: slip_done_def)
qed

text \<open>
  C2. For every known job id whose job is not \<^verbatim>\<open>completed\<close> (pending, running or failed),
  \<^verbatim>\<open>get_results\<close> and the download endpoint answer HTTP 400 with the error body
  \<^verbatim>\<open>Job not completed yet\<close>, which holds no records. In both wrappers.
\<close>

theorem not_completed_is_not_ready:
  "(lookup_job \<sigma> jid = Some job \<and> status job \<noteq> Completed \<longrightarrow>
      get_results \<sigma> jid = Json 400 (error_body ''Job not completed yet'') \<and>
      download_csv stamp \<sigma> jid = Json 400 (error_body ''Job not completed yet''))
   \<and> (lookup_job \<tau> jid' = Some job' \<and> status job' \<noteq> Completed \<longrightarrow>
      extraction_get_results \<tau> jid' = Json 400 (error_body ''Job not completed yet'') \<and>
      extraction_download_csv stamp' \<tau> jid' = Json 400 (error_body ''Job not completed yet''))"
  by (simp add: get_results_def download_csv_def extraction_get_results_def extraction_download_csv_def)

theorem not_completed_is_not_ready_witness:
  "lookup_job done_failed (ascii ''job-1'') =
       Some (demo_job\<lparr>status := Failed, progress := 0, error_message := Some (ascii ''timeout'')\<rparr>)
   \<and> status (demo_job\<lparr>status := Failed, progress := 0, error_message := Some (ascii ''timeout'')\<rparr>) \<noteq> Completed
   \<and> get_results done_failed (ascii ''job-1'') = Json 400 (error_body ''Job not completed yet'')
   \<and> download_csv (ascii ''20240101_000600'') done_failed (ascii ''job-1'') = Json 400 (error_body ''Job not completed yet'')
   \<and> lookup_job xsubmitted (ascii ''job-7'') = Some demo_xjob
   \<and> status demo_xjob \<noteq> Completed
   \<and> extraction_get_results xsubmitted (ascii ''job-7'') = Json 400 (error_body ''Job not completed yet'')
   \<and> extraction_download_csv (ascii ''20240101_000600'') xsubmitted (ascii ''job-7'') =
       Json 400 (error_body ''Job not completed yet'')"
  using not_completed_is_not_ready [of done_failed "ascii ''job-1''"
      "demo_job\<lparr>status := Failed, progress := 0, error_message := Some (ascii ''timeout'')\<rparr>"
      "ascii ''20240101_000600''" xsubmitted "ascii ''job-7''" demo_xjob "ascii ''20240101_000600''"]
  by (simp add: done_failed_eval xsubmitted_eval lookup_job_def demo_xjob_def new_ExtractionJob_def)

text \<open>
  C3. For every job id that no submit has issued, the status, results and download endpoints
  answer HTTP 404 \<^verbatim>\<open>Job not found\<close>: in every state the process reaches from its start, for
  every id that is not in a successful reply of one of the submits so far. In both wrappers.
\<close>

theorem unknown_id_not_found:
  "(jid \<notin> set (scrape_issued P evs init_system) \<longrightarrow>
      get_job_status (scrape_exec P evs init_system) jid = Json 404 (error_body ''Job not found'') \<and>
      get_results (scrape_exec P evs init_system) jid = Json 404 (error_body ''Job not found'') \<and>
      download_csv stamp (scrape_exec P evs init_system) jid = Json 404 (error_body ''Job not found''))
   \<and> (jid' \<notin> set (extract_issued P' evs' init_system) \<longrightarrow>
      extraction_get_job_status (extract_exec P' evs' init_system) jid' = Json 404 (error_body ''Job not found'') \<and>
      extraction_get_results (extract_exec P' evs' init_system) jid' = Json 404 (error_body ''Job not found'') \<and>
      extraction_download_csv stamp' (extract_exec P' evs' init_system) jid' = Json 404 (error_body ''Job not found''))"
proof -
  have a: "lookup_job (scrape_exec P evs init_system) jid = None"
    if "jid \<notin> set (scrape_issued P evs init_system)"
  proof -
    have "jid \<notin> dom (table (scrape_exec P evs init_system))"
      using that by (simp add: scrape_exec_dom init_system_def)
    then show ?thesis by (simp add: lookup_job_None domIff)
  qed
  have b: "lookup_job (extract_exec P' evs' init_system) jid' = None"
    if "jid' \<notin> set (extract_issued P' evs' init_system)"
  proof -
    have "jid' \<notin> dom (table (extract_exec P' evs' init_system))"
      using that by (simp add: extract_exec_dom init_system_def)
    then show ?thesis by (simp add: lookup_job_None domIff)
  qed
  show ?thesis
    using a b
    by (simp add: get_job_status_def get_results_def download_csv_def
        extraction_get_job_status_def extraction_get_results_def extraction_download_csv_def)
qed

theorem unknown_id_not_found_witness:
  "(ascii ''job-2'') \<notin> set (scrape_issued no_int [Post demo_request (ascii ''job-1'') (ascii ''2024-01-01T00:00:00'')] init_system)
   \<and> get_job_status submitted (ascii ''job-2'') = Json 404 (error_body ''Job not found'')
   \<and> get_results submitted (ascii ''job-2'') = Json 404 (error_body ''Job not found'')
   \<and> download_csv (ascii ''20240101_000600'') submitted (ascii ''job-2'') = Json 404 (error_body ''Job not found'')
   \<and> (ascii ''job-2'') \<notin> set (extract_issued no_int [Post demo_extract_request (ascii ''job-7'') (ascii ''2024-01-01T00:00:00'')] init_system)
   \<and> extraction_get_job_status xsubmitted (ascii ''job-2'') = Json 404 (error_body ''Job not found'')
   \<and> extraction_get_results xsubmitted (ascii ''job-2'') = Json 404 (error_body ''Job not found'')
   \<and> extraction_download_csv (ascii ''20240101_000600'') xsubmitted (ascii ''job-2'') = Json 404 (error_body ''Job not found'')"
proof -
  have a: "scrape_issued no_int [Post demo_request (ascii ''job-1'') (ascii ''2024-01-01T00:00:00'')] init_system = [(ascii ''job-1'')]"
    by (simp add: demo_request_def start_scraping_def get_strip_def get_int_def dict_get_def
        str_strip_def py_isspace_def ascii_def)
  have b: "extract_issued no_int [Post demo_extract_request (ascii ''job-7'') (ascii ''2024-01-01T00:00:00'')] init_system = [(ascii ''job-7'')]"
    by (simp add: demo_extract_request_def start_extraction_def get_strip_def get_int_def dict_get_def
        str_strip_def py_isspace_def ascii_def)
  show ?thesis
    unfolding a b
    using unknown_id_not_found [of "ascii ''job-2''" no_int "[Post demo_request (ascii ''job-1'') (ascii ''2024-01-01T00:00:00'')]"
        "ascii ''20240101_000600''" "ascii ''job-2''" no_int "[Post demo_extract_request (ascii ''job-7'') (ascii ''2024-01-01T00:00:00'')]"
        "ascii ''20240101_000600''", unfolded a b]
    by (simp add: submitted_def xsubmitted_def)
qed

text \<open>
  C4 (as the spec states it: every invalid submission fails with HTTP 400) does not hold: a
  submission whose \<^verbatim>\<open>max_results\<close> is \<^verbatim>\<open>null\<close> makes \<^verbatim>\<open>int(...)\<close> raise before any check, and
  the handler's \<^verbatim>\<open>except Exception\<close> answers HTTP 500. No job is created.
\<close>

theorem malformed_submission_counterexample:
  "start_scraping no_int bad_request (ascii ''job-1'') (ascii ''2024-01-01T00:00:00'') init_system =
     (Error500 TypeError, init_system)
   \<and> http_code (fst (start_scraping no_int bad_request (ascii ''job-1'') (ascii ''2024-01-01T00:00:00'') init_system)) \<noteq> 400
   \<and> start_extraction no_int bad_extract_request (ascii ''job-7'') (ascii ''2024-01-01T00:00:00'') init_system =
     (Error500 TypeError, init_system)
   \<and> http_code (fst (start_extraction no_int bad_extract_request (ascii ''job-7'') (ascii ''2024-01-01T00:00:00'') init_system)) \<noteq> 400"
  by (simp add: bad_request_def bad_extract_request_def start_scraping_def start_extraction_def
      get_strip_def get_int_def dict_get_def str_strip_def py_isspace_def ascii_def)

text \<open>
  C4, amended. Submit first reads its parameters (\<^verbatim>\<open>.get\<close>, \<^verbatim>\<open>.strip()\<close>, \<^verbatim>\<open>int\<close>); when a
  read raises (the body is no object, a text field is no string, \<^verbatim>\<open>int\<close> rejects the cap) it
  answers HTTP 500. When all reads succeed it validates: an empty location (city) after
  stripping, an empty business type (a falsy industry selection) or, in
  google\_map\_flask\_api.py, a cap outside 10, 20, 50, 80, 100 is answered HTTP 400;
  flask\_backend\_api.py accepts every integer cap. Every submission not answered 200 leaves
  the process state as it was: no job is created. Every other submission allocates a job in
  pending state under the id drawn, starts its thread and returns the id.
\<close>

theorem submit_validates_or_registers:
  "(http_code (fst (start_scraping P data uuid now \<sigma>)) \<noteq> 200 \<longrightarrow>
      snd (start_scraping P data uuid now \<sigma>) = \<sigma>)
   \<and> ((\<exists>e. get_strip data ''location'' = Inl e \<or> get_strip data ''country'' = Inl e \<or>
          get_strip data ''state'' = Inl e \<or> get_strip data ''business_type'' = Inl e \<or>
          get_int P data ''max_results'' 50 = Inl e) \<longrightarrow>
      http_code (fst (start_scraping P data uuid now \<sigma>)) = 500)
   \<and> (\<forall>loc ctry st btype maxr.
        get_strip data ''location'' = Inr loc \<and> get_strip data ''country'' = Inr ctry \<and>
        get_strip data ''state'' = Inr st \<and> get_strip data ''business_type'' = Inr btype \<and>
        get_int P data ''max_results'' 50 = Inr maxr \<longrightarrow>
        (loc = [] \<or> btype = [] \<or> maxr \<notin> {10, 20, 50, 80, 100} \<longrightarrow>
           http_code (fst (start_scraping P data uuid now \<sigma>)) = 400) \<and>
        (loc \<noteq> [] \<and> btype \<noteq> [] \<and> maxr \<in> {10, 20, 50, 80, 100} \<longrightarrow>
           start_scraping P data uuid now \<sigma> =
             (Json 200 (JDict [(''success'', JBool True), (''job_id'', JStr uuid),
                (''message'', JStr (ascii ''Scraping started with email extraction enabled''))]),
              \<sigma>\<lparr>heap := heap \<sigma> @ [new_ScrapingJob uuid loc ctry st btype maxr now],
                table := (table \<sigma>)(uuid \<mapsto> length (heap \<sigma>)),
                threads := threads \<sigma> @ [(length (heap \<sigma>), S45)]\<rparr>) \<and>
           status (new_ScrapingJob uuid loc ctry st btype maxr now) = Pending))
   \<and> (http_code (fst (start_extraction P' data' uuid' now' \<tau>)) \<noteq> 200 \<longrightarrow>
      snd (start_extraction P' data' uuid' now' \<tau>) = \<tau>)
   \<and> ((\<exists>e. get_strip data' ''city'' = Inl e \<or> py_get data' ''industries'' (JList []) = Inl e \<or>
          get_int P' data' ''maxResults'' 250 = Inl e) \<longrightarrow>
      http_code (fst (start_extraction P' data' uuid' now' \<tau>)) = 500)
   \<and> (\<forall>cty inds maxr.
        get_strip data' ''city'' = Inr cty \<and> py_get data' ''industries'' (JList []) = Inr inds \<and>
        get_int P' data' ''maxResults'' 250 = Inr maxr \<longrightarrow>
        (cty = [] \<or> \<not> truthy inds \<longrightarrow>
           http_code (fst (start_extraction P' data' uuid' now' \<tau>)) = 400) \<and>
        (cty \<noteq> [] \<and> truthy inds \<longrightarrow>
           start_extraction P' data' uuid' now' \<tau> =
             (Json 200 (JDict [(''success'', JBool True), (''job_id'', JStr uuid'),
                (''message'', JStr (ascii ''Extraction started''))]),
              \<tau>\<lparr>heap := heap \<tau> @ [new_ExtractionJob uuid' cty inds maxr now'],
                table := (table \<tau>)(uuid' \<mapsto> length (heap \<tau>)),
                threads := threads \<tau> @ [(length (heap \<tau>), E43)]\<rparr>) \<and>
           status (new_ExtractionJob uuid' cty inds maxr now') = Pending))"
proof -
  have a3: "\<forall>loc ctry st btype maxr.
        get_strip data ''location'' = Inr loc \<and> get_strip data ''country'' = Inr ctry \<and>
        get_strip data ''state'' = Inr st \<and> get_strip data ''business_type'' = Inr btype \<and>
        get_int P data ''max_results'' 50 = Inr maxr \<longrightarrow>
        (loc = [] \<or> btype = [] \<or> maxr \<notin> {10, 20, 50, 80, 100} \<longrightarrow>
           http_code (fst (start_scraping P data uuid now \<sigma>)) = 400) \<and>
        (loc \<noteq> [] \<and> btype \<noteq> [] \<and> maxr \<in> {10, 20, 50, 80, 100} \<longrightarrow>
           start_scraping P data uuid now \<sigma> =
             (Json 200 (JDict [(''success'', JBool True), (''job_id'', JStr uuid),
                (''message'', JStr (ascii ''Scraping started with email extraction enabled''))]),
              \<sigma>\<lparr>heap := heap \<sigma> @ [new_ScrapingJob uuid loc ctry st btype maxr now],
                table := (table \<sigma>)(uuid \<mapsto> length (heap \<sigma>)),
                threads := threads \<sigma> @ [(length (heap \<sigma>), S45)]\<rparr>) \<and>
           status (new_ScrapingJob uuid loc ctry st btype maxr now) = Pending)"
    by (auto simp: start_scraping_def new_ScrapingJob_def)
  have b3: "\<forall>cty inds maxr.
        get_strip data' ''city'' = Inr cty \<and> py_get data' ''industries'' (JList []) = Inr inds \<and>
        get_int P' data' ''maxResults'' 250 = Inr maxr \<longrightarrow>
        (cty = [] \<or> \<not> truthy inds \<longrightarrow>
           http_code (fst (start_extraction P' data' uuid' now' \<tau>)) = 400) \<and>
        (cty \<noteq> [] \<and> truthy inds \<longrightarrow>
           start_extraction P' data' uuid' now' \<tau> =
             (Json 200 (JDict [(''success'', JBool True), (''job_id'', JStr uuid'),
                (''message'', JStr (ascii ''Extraction started''))]),
              \<tau>\<lparr>heap := heap \<tau> @ [new_ExtractionJob uuid' cty inds maxr now'],
                table := (table \<tau>)(uuid' \<mapsto> length (heap \<tau>)),
                threads := threads \<tau> @ [(length (heap \<tau>), E43)]\<rparr>) \<and>
           status (new_ExtractionJob uuid' cty inds maxr now') = Pending)"
    by (auto simp: start_extraction_def new_ExtractionJob_def)
  show ?thesis
    using a3 b3 start_scraping_unchanged [of P data uuid now \<sigma>]
      start_extraction_unchanged [of P' data' uuid' now' \<tau>]
      start_scraping_read_error [of data _ P uuid now \<sigma>]
      start_extraction_read_error [of data' _ P' uuid' now' \<tau>]
    by (intro conjI impI) (assumption | blast)+
qed

theorem submit_validates_or_registers_witness:
  "get_strip demo_request ''location'' = Inr (ascii ''Austin'')
   \<and> get_int no_int demo_request ''max_results'' 50 = Inr 10
   \<and> start_scraping no_int demo_request (ascii ''job-1'') (ascii ''2024-01-01T00:00:00'') init_system =
       (Json 200 (JDict [(''success'', JBool True), (''job_id'', JStr (ascii ''job-1'')),
          (''message'', JStr (ascii ''Scraping started with email extraction enabled''))]), submitted)
   \<and> get_strip blank_request ''location'' = Inr []
   \<and> http_code (fst (start_scraping no_int blank_request (ascii ''job-1'') (ascii ''2024-01-01T00:00:00'') init_system)) = 400
   \<and> snd (start_scraping no_int blank_request (ascii ''job-1'') (ascii ''2024-01-01T00:00:00'') init_system) = init_system
   \<and> get_int no_int bad_request ''max_results'' 50 = Inl TypeError
   \<and> http_code (fst (start_scraping no_int bad_request (ascii ''job-1'') (ascii ''2024-01-01T00:00:00'') init_system)) = 500
   \<and> snd (start_scraping no_int bad_request (ascii ''job-1'') (ascii ''2024-01-01T00:00:00'') init_system) = init_system
   \<and> get_strip demo_extract_request ''city'' = Inr (ascii ''Austin, USA'')
   \<and> start_extraction no_int demo_extract_request (ascii ''job-7'') (ascii ''2024-01-01T00:00:00'') init_system =
       (Json 200 (JDict [(''success'', JBool True), (''job_id'', JStr (ascii ''job-7'')),
          (''message'', JStr (ascii ''Extraction started''))]), xsubmitted)
   \<and> py_get blank_extract_request ''industries'' (JList []) = Inr (JList [])
   \<and> http_code (fst (start_extraction no_int blank_extract_request (ascii ''job-7'') (ascii ''2024-01-01T00:00:00'') init_system)) = 400
   \<and> snd (start_extraction no_int blank_extract_request (ascii ''job-7'') (ascii ''2024-01-01T00:00:00'') init_system) = init_system
   \<and> get_int no_int bad_extract_request ''maxResults'' 250 = Inl TypeError
   \<and> http_code (fst (start_extraction no_int bad_extract_request (ascii ''job-7'') (ascii ''2024-01-01T00:00:00'') init_system)) = 500
   \<and> snd (start_extraction no_int bad_extract_request (ascii ''job-7'') (ascii ''2024-01-01T00:00:00'') init_system) = init_system"
proof -
  note t1 = submit_validates_or_registers [of no_int demo_request "ascii ''job-1''" "ascii ''2024-01-01T00:00:00''" init_system
      no_int demo_extract_request "ascii ''job-7''" "ascii ''2024-01-01T00:00:00''" init_system]
  note t2 = submit_validates_or_registers [of no_int blank_request "ascii ''job-1''" "ascii ''2024-01-01T00:00:00''" init_system
      no_int blank_extract_request "ascii ''job-7''" "ascii ''2024-01-01T00:00:00''" init_system]
  note t3 = submit_validates_or_registers [of no_int bad_request "ascii ''job-1''" "ascii ''2024-01-01T00:00:00''" init_system
      no_int bad_extract_request "ascii ''job-7''" "ascii ''2024-01-01T00:00:00''" init_system]
  have a1: "start_scraping no_int demo_request (ascii ''job-1'') (ascii ''2024-01-01T00:00:00'') init_system =
       (Json 200 (JDict [(''success'', JBool True), (''job_id'', JStr (ascii ''job-1'')),
          (''message'', JStr (ascii ''Scraping started with email extraction enabled''))]), submitted)"
    using t1 demo_request_reads
    by (simp add: submitted_eval demo_job_def init_system_def)
  have b1: "start_extraction no_int demo_extract_request (ascii ''job-7'') (ascii ''2024-01-01T00:00:00'') init_system =
       (Json 200 (JDict [(''success'', JBool True), (''job_id'', JStr (ascii ''job-7'')),
          (''message'', JStr (ascii ''Extraction started''))]), xsubmitted)"
    using t1 demo_extract_request_reads
    by (simp add: xsubmitted_eval demo_xjob_def init_system_def)
  have a2: "http_code (fst (start_scraping no_int blank_request (ascii ''job-1'') (ascii ''2024-01-01T00:00:00'') init_system)) = 400"
    using t2 blank_request_reads by simp
  have b2: "http_code (fst (start_extraction no_int blank_extract_request (ascii ''job-7'') (ascii ''2024-01-01T00:00:00'') init_system)) = 400"
    using t2 blank_extract_request_reads by simp
  have a2': "snd (start_scraping no_int blank_request (ascii ''job-1'') (ascii ''2024-01-01T00:00:00'') init_system) = init_system"
    using t2 a2 by simp
  have b2': "snd (start_extraction no_int blank_extract_request (ascii ''job-7'') (ascii ''2024-01-01T00:00:00'') init_system) = init_system"
    using t2 b2 by simp
  have a3: "http_code (fst (start_scraping no_int bad_request (ascii ''job-1'') (ascii ''2024-01-01T00:00:00'') init_system)) = 500"
    using t3 bad_request_reads by blast
  have b3: "http_code (fst (start_extraction no_int bad_extract_request (ascii ''job-7'') (ascii ''2024-01-01T00:00:00'') init_system)) = 500"
    using t3 bad_extract_request_reads by blast
  have a3': "snd (start_scraping no_int bad_request (ascii ''job-1'') (ascii ''2024-01-01T00:00:00'') init_system) = init_system"
    using t3 a3 by simp
  have b3': "snd (start_extraction no_int bad_extract_request (ascii ''job-7'') (ascii ''2024-01-01T00:00:00'') init_system) = init_system"
    using t3 b3 by simp
  show ?thesis
    using a1 a2 a2' a3 a3' b1 b2 b2' b3 b3' demo_request_reads blank_request_reads bad_request_reads
      demo_extract_request_reads blank_extract_request_reads bad_extract_request_reads
    by simp
qed

text \<open>
  C5 (as the spec states it: a failure of the Extractor is surfaced through the status and
  results endpoints as HTTP 200 with the status \<^verbatim>\<open>failed\<close> in the body) does not hold for the
  results endpoint: for the failed job of the example run \<^verbatim>\<open>get_results\<close> answers HTTP 400
  \<^verbatim>\<open>Job not completed yet\<close>.
\<close>

theorem failed_job_results_answer_counterexample:
  "lookup_job done_failed (ascii ''job-1'') = Some (heap done_failed ! 0)
   \<and> status (heap done_failed ! 0) = Failed
   \<and> error_message (heap done_failed ! 0) = Some (ascii ''timeout'')
   \<and> get_results done_failed (ascii ''job-1'') = Json 400 (error_body ''Job not completed yet'')
   \<and> http_code (get_results done_failed (ascii ''job-1'')) \<noteq> 200"
  by (simp add: done_failed_eval lookup_job_def get_results_def)

text \<open>
  C5, amended. For every \<^verbatim>\<open>Exception\<close> that a call into the Extractor raises before the job
  is completed and that reaches the handler (the exception of the call, or the one
  \<^verbatim>\<open>scraper.close()\<close> raises in its place), the execution unit stores the message in the job's
  error field and marks the job failed. A failed job is shown by the status endpoint as HTTP 200 with the status
  \<^verbatim>\<open>failed\<close> and the error message in the body; the results and download endpoints answer
  HTTP 400 for it; none answers 500. A statement of a job's thread changes no other job
  object and not the dict.
\<close>

theorem extractor_failure_is_captured:
  "(scraper_raises env = Some m \<longrightarrow>
      run_scraping_job env job =
        (S_done, job\<lparr>status := Failed, progress := 0, error_message := Some m\<rparr>))
   \<and> (lookup_job \<sigma> jid = Some j \<and> status j = Failed \<longrightarrow>
        get_job_status \<sigma> jid =
          Json 200 (JDict [(''success'', JBool True), (''job_id'', JStr jid),
            (''status'', JStr (ascii ''failed'')), (''progress'', JInt (progress j)),
            (''created_at'', JStr (created_at j)),
            (''error_message'', (case error_message j of None \<Rightarrow> JNull | Some m \<Rightarrow> JStr m))]) \<and>
        get_results \<sigma> jid = Json 400 (error_body ''Job not completed yet'') \<and>
        download_csv stamp \<sigma> jid = Json 400 (error_body ''Job not completed yet''))
   \<and> (\<forall>r. r \<noteq> fst (threads \<sigma> ! i) \<longrightarrow>
        heap (run_thread run_scraping_job_step i env' \<sigma>) ! r = heap \<sigma> ! r)
   \<and> table (run_thread run_scraping_job_step i env' \<sigma>) = table \<sigma>
   \<and> length (heap (run_thread run_scraping_job_step i env' \<sigma>)) = length (heap \<sigma>)"
  using failed_job_views [of \<sigma> jid j stamp]
  by (simp add: run_scraping_job_raises run_thread_others)

theorem extractor_failure_is_captured_witness:
  "scraper_raises env_fail = Some (ascii ''timeout'')
   \<and> run_scraping_job env_fail demo_job =
       (S_done, demo_job\<lparr>status := Failed, progress := 0, error_message := Some (ascii ''timeout'')\<rparr>)
   \<and> lookup_job two_failed (ascii ''job-1'') = Some (heap two_failed ! 0)
   \<and> status (heap two_failed ! 0) = Failed
   \<and> get_job_status two_failed (ascii ''job-1'') =
       Json 200 (JDict [(''success'', JBool True), (''job_id'', JStr (ascii ''job-1'')),
         (''status'', JStr (ascii ''failed'')), (''progress'', JInt 0),
         (''created_at'', JStr (ascii ''2024-01-01T00:00:00'')), (''error_message'', JStr (ascii ''timeout''))])
   \<and> get_results two_failed (ascii ''job-1'') = Json 400 (error_body ''Job not completed yet'')
   \<and> download_csv (ascii ''20240101_000600'') two_failed (ascii ''job-1'') = Json 400 (error_body ''Job not completed yet'')
   \<and> 1 \<noteq> fst (threads two_failing ! 0)
   \<and> status (heap (run_thread run_scraping_job_step 0 env_fail two_failing) ! 0) = Failed
   \<and> heap (run_thread run_scraping_job_step 0 env_fail two_failing) ! 1 = heap two_failing ! 1
   \<and> table (run_thread run_scraping_job_step 0 env_fail two_failing) = table two_failing"
proof -
  note t1 = extractor_failure_is_captured [of env_fail "ascii ''timeout''" demo_job two_failed "ascii ''job-1''"
      "heap two_failed ! 0" "ascii ''20240101_000600''" 1 env_ok]
  note t2 = extractor_failure_is_captured [of env_fail "ascii ''timeout''" demo_job two_failing "ascii ''job-1''"
      "heap two_failing ! 0" "ascii ''20240101_000600''" 0 env_fail]
  have l: "lookup_job two_failed (ascii ''job-1'') = Some (heap two_failed ! 0)"
    "status (heap two_failed ! 0) = Failed"
    "progress (heap two_failed ! 0) = 0"
    "created_at (heap two_failed ! 0) = (ascii ''2024-01-01T00:00:00'')"
    "error_message (heap two_failed ! 0) = Some (ascii ''timeout'')"
    by (simp_all add: two_failed_eval lookup_job_def demo_job_def new_ScrapingJob_def)
  have n: "1 \<noteq> fst (threads two_failing ! 0)"
    by (simp add: two_failing_eval)
  have s: "status (heap (run_thread run_scraping_job_step 0 env_fail two_failing) ! 0) = Failed"
    by (simp add: two_failing_eval run_thread_def)
  have a: "run_scraping_job env_fail demo_job =
       (S_done, demo_job\<lparr>status := Failed, progress := 0, error_message := Some (ascii ''timeout'')\<rparr>)"
    using t1 env_fail_raises by blast
  have b: "get_job_status two_failed (ascii ''job-1'') =
       Json 200 (JDict [(''success'', JBool True), (''job_id'', JStr (ascii ''job-1'')),
         (''status'', JStr (ascii ''failed'')), (''progress'', JInt 0),
         (''created_at'', JStr (ascii ''2024-01-01T00:00:00'')), (''error_message'', JStr (ascii ''timeout''))])"
    "get_results two_failed (ascii ''job-1'') = Json 400 (error_body ''Job not completed yet'')"
    "download_csv (ascii ''20240101_000600'') two_failed (ascii ''job-1'') = Json 400 (error_body ''Job not completed yet'')"
    using t1 l by simp_all
  have c: "heap (run_thread run_scraping_job_step 0 env_fail two_failing) ! 1 = heap two_failing ! 1"
    "table (run_thread run_scraping_job_step 0 env_fail two_failing) = table two_failing"
    using t2 n by blast+
  show ?thesis
    using env_fail_raises a l(1,2) b n s c by simp
qed

text \<open>
  C6 (as the spec states it: on a failure raised by the Extractor the job is marked failed and
  its progress is left at the value it held when the failure occurred) does not hold: in the
  example run \<^verbatim>\<open>search_on_maps\<close> raises while the progress is 20, and the handler leaves the
  job failed with progress 0 (line 109; line 64 of flask\_backend\_api.py).
\<close>

theorem failure_changes_progress_counterexample:
  "fst (scraping_steps 7 env_fail (S45, demo_job)) = S107 (ascii ''timeout'')
   \<and> progress (snd (scraping_steps 7 env_fail (S45, demo_job))) = 20
   \<and> status (snd (run_scraping_job env_fail demo_job)) = Failed
   \<and> progress (snd (run_scraping_job env_fail demo_job)) = 0
   \<and> fst (extraction_steps 5 xenv_fail (E43, demo_xjob)) = E62 (ascii ''bad element'')
   \<and> progress (snd (extraction_steps 5 xenv_fail (E43, demo_xjob))) = 20
   \<and> status (snd (run_extraction xenv_fail demo_xjob)) = Failed
   \<and> progress (snd (run_extraction xenv_fail demo_xjob)) = 0"
  by (simp add: run_scraping_job_def run_extraction_def numeral_eq_Suc env_fail_def env_ok_def xenv_fail_def)

text \<open>
  C6, amended. For every job whose Extractor call raises an \<^verbatim>\<open>Exception\<close> before the job is
  completed, the execution unit runs to its end, marks the job failed and resets the progress to 0. In both wrappers.
\<close>

theorem failure_resets_progress:
  "(scraper_raises env = Some m \<longrightarrow>
      fst (run_scraping_job env job) = S_done \<and>
      status (snd (run_scraping_job env job)) = Failed \<and>
      progress (snd (run_scraping_job env job)) = 0)
   \<and> (extractor_raises env' = Some m' \<longrightarrow>
      fst (run_extraction env' job') = E_done \<and>
      status (snd (run_extraction env' job')) = Failed \<and>
      progress (snd (run_extraction env' job')) = 0)"
  by (simp add: run_scraping_job_raises run_extraction_raises)

theorem failure_resets_progress_witness:
  "scraper_raises env_fail = Some (ascii ''timeout'')
   \<and> fst (run_scraping_job env_fail demo_job) = S_done
   \<and> status (snd (run_scraping_job env_fail demo_job)) = Failed
   \<and> progress (snd (run_scraping_job env_fail demo_job)) = 0
   \<and> extractor_raises xenv_fail = Some (ascii ''bad element'')
   \<and> fst (run_extraction xenv_fail demo_xjob) = E_done
   \<and> status (snd (run_extraction xenv_fail demo_xjob)) = Failed
   \<and> progress (snd (run_extraction xenv_fail demo_xjob)) = 0"
  using failure_resets_progress [of env_fail "ascii ''timeout''" demo_job xenv_fail "ascii ''bad element''" demo_xjob]
    env_fail_raises xenv_fail_raises
  by simp

text \<open>
  C7 (as the spec states it: \<^verbatim>\<open>completed_at\<close> is set when the job transitions to completed and
  also when it transitions to failed) does not hold: the handler of \<^verbatim>\<open>except Exception\<close>
  assigns status, error message and progress only, and the failed job of the example run
  ends with \<^verbatim>\<open>completed_at\<close> still \<^verbatim>\<open>None\<close>.
\<close>

theorem completed_at_unset_after_failure_counterexample:
  "fst (run_scraping_job env_fail demo_job) = S_done
   \<and> status (snd (run_scraping_job env_fail demo_job)) = Failed
   \<and> completed_at (snd (run_scraping_job env_fail demo_job)) = None
   \<and> fst (run_extraction xenv_fail demo_xjob) = E_done
   \<and> status (snd (run_extraction xenv_fail demo_xjob)) = Failed
   \<and> completed_at (snd (run_extraction xenv_fail demo_xjob)) = None"
  by (simp add: run_scraping_job_def run_extraction_def numeral_eq_Suc env_fail_def env_ok_def
      xenv_fail_def demo_job_def demo_xjob_def new_ScrapingJob_def new_ExtractionJob_def)

text \<open>
  C7, amended. \<^verbatim>\<open>completed_at\<close> is assigned by one statement only, the one that follows the
  marking of the job as completed (line 92; line 59 of flask\_backend\_api.py), which sets it
  to the clock; every other statement, those of the failure handler included, leaves it as
  it is. So in every state the process reaches a pending or running job has it unset and a
  completed job whose thread has ended has it set; a run that fails before the job is
  completed ends failed with \<^verbatim>\<open>completed_at\<close> as it was (unset, for a job that submit
  created); and a run in which every call returns ends completed with \<^verbatim>\<open>completed_at\<close> the
  clock read at line 92. In flask\_backend\_api.py, moreover, in every state the process
  reaches a job whose \<^verbatim>\<open>completed_at\<close> is set is completed and a failed job has it unset.
\<close>

theorem completed_at_assigned_on_completion_only:
  "(let \<sigma> = scrape_exec P evs init_system in
      \<forall>r<length (heap \<sigma>).
        (status (heap \<sigma> ! r) = Pending \<or> status (heap \<sigma> ! r) = Running \<longrightarrow>
           completed_at (heap \<sigma> ! r) = None) \<and>
        (snd (threads \<sigma> ! r) = S_done \<and> status (heap \<sigma> ! r) = Completed \<longrightarrow>
           completed_at (heap \<sigma> ! r) \<noteq> None))
   \<and> completed_at (snd (run_scraping_job_step env pc job)) =
        (if pc = S92 then Some (scraper_clock env) else completed_at job)
   \<and> (\<forall>m. scraper_raises env = Some m \<longrightarrow>
        fst (run_scraping_job env job) = S_done \<and>
        status (snd (run_scraping_job env job)) = Failed \<and>
        completed_at (snd (run_scraping_job env job)) = completed_at job)
   \<and> (\<forall>rs. scraper_returns env = Some rs \<longrightarrow>
        fst (run_scraping_job env job) = S_done \<and>
        status (snd (run_scraping_job env job)) = Completed \<and>
        completed_at (snd (run_scraping_job env job)) = Some (scraper_clock env))
   \<and> (let \<tau> = extract_exec P' evs' init_system in
      \<forall>r<length (heap \<tau>).
        (completed_at (heap \<tau> ! r) \<noteq> None \<longrightarrow> status (heap \<tau> ! r) = Completed) \<and>
        (status (heap \<tau> ! r) = Failed \<longrightarrow> completed_at (heap \<tau> ! r) = None) \<and>
        (snd (threads \<tau> ! r) = E_done \<and> status (heap \<tau> ! r) = Completed \<longrightarrow>
           completed_at (heap \<tau> ! r) \<noteq> None))
   \<and> completed_at (snd (run_extraction_step env' pc' job')) =
        (if pc' = E59 then Some (extractor_clock env') else completed_at job')
   \<and> (\<forall>x. extractor_returns env' = Some x \<longrightarrow>
        fst (run_extraction env' job') = E_done \<and>
        status (snd (run_extraction env' job')) = Completed \<and>
        completed_at (snd (run_extraction env' job')) = Some (extractor_clock env'))"
proof -
  have a: "\<forall>r<length (heap (scrape_exec P evs init_system)).
        (status (heap (scrape_exec P evs init_system) ! r) = Pending \<or>
         status (heap (scrape_exec P evs init_system) ! r) = Running \<longrightarrow>
           completed_at (heap (scrape_exec P evs init_system) ! r) = None) \<and>
        (snd (threads (scrape_exec P evs init_system) ! r) = S_done \<and>
         status (heap (scrape_exec P evs init_system) ! r) = Completed \<longrightarrow>
           completed_at (heap (scrape_exec P evs init_system) ! r) \<noteq> None)"
  proof (intro allI impI)
    fix r assume "r < length (heap (scrape_exec P evs init_system))"
    then have "scrape_ok (snd (threads (scrape_exec P evs init_system) ! r))
        (heap (scrape_exec P evs init_system) ! r)"
      using wf_thread_ok [OF scrape_reach_wf] by blast
    then show "(status (heap (scrape_exec P evs init_system) ! r) = Pending \<or>
         status (heap (scrape_exec P evs init_system) ! r) = Running \<longrightarrow>
           completed_at (heap (scrape_exec P evs init_system) ! r) = None) \<and>
        (snd (threads (scrape_exec P evs init_system) ! r) = S_done \<and>
         status (heap (scrape_exec P evs init_system) ! r) = Completed \<longrightarrow>
           completed_at (heap (scrape_exec P evs init_system) ! r) \<noteq> None)"
      by (rule scrape_ok_completed_at)
  qed
  have b: "\<forall>r<length (heap (extract_exec P' evs' init_system)).
        (completed_at (heap (extract_exec P' evs' init_system) ! r) \<noteq> None \<longrightarrow>
           status (heap (extract_exec P' evs' init_system) ! r) = Completed) \<and>
        (status (heap (extract_exec P' evs' init_system) ! r) = Failed \<longrightarrow>
           completed_at (heap (extract_exec P' evs' init_system) ! r) = None) \<and>
        (snd (threads (extract_exec P' evs' init_system) ! r) = E_done \<and>
         status (heap (extract_exec P' evs' init_system) ! r) = Completed \<longrightarrow>
           completed_at (heap (extract_exec P' evs' init_system) ! r) \<noteq> None)"
  proof (intro allI impI)
    fix r assume "r < length (heap (extract_exec P' evs' init_system))"
    then have "extract_ok (snd (threads (extract_exec P' evs' init_system) ! r))
        (heap (extract_exec P' evs' init_system) ! r)"
      using wf_thread_ok [OF extract_reach_wf] by blast
    then show "(completed_at (heap (extract_exec P' evs' init_system) ! r) \<noteq> None \<longrightarrow>
           status (heap (extract_exec P' evs' init_system) ! r) = Completed) \<and>
        (status (heap (extract_exec P' evs' init_system) ! r) = Failed \<longrightarrow>
           completed_at (heap (extract_exec P' evs' init_system) ! r) = None) \<and>
        (snd (threads (extract_exec P' evs' init_system) ! r) = E_done \<and>
         status (heap (extract_exec P' evs' init_system) ! r) = Completed \<longrightarrow>
           completed_at (heap (extract_exec P' evs' init_system) ! r) \<noteq> None)"
      using extract_ok_completed_at by blast
  qed
  have s: "completed_at (snd (run_scraping_job_step env pc job)) =
        (if pc = S92 then Some (scraper_clock env) else completed_at job)"
    by (rule scrape_step_completed_at)
  have s': "completed_at (snd (run_extraction_step env' pc' job')) =
        (if pc' = E59 then Some (extractor_clock env') else completed_at job')"
    by (rule extract_step_completed_at)
  have f: "\<forall>m. scraper_raises env = Some m \<longrightarrow>
        fst (run_scraping_job env job) = S_done \<and>
        status (snd (run_scraping_job env job)) = Failed \<and>
        completed_at (snd (run_scraping_job env job)) = completed_at job"
    by (simp add: run_scraping_job_raises)
  have c: "\<forall>rs. scraper_returns env = Some rs \<longrightarrow>
        fst (run_scraping_job env job) = S_done \<and>
        status (snd (run_scraping_job env job)) = Completed \<and>
        completed_at (snd (run_scraping_job env job)) = Some (scraper_clock env)"
    by (simp add: run_scraping_job_returns)
  have d: "\<forall>x. extractor_returns env' = Some x \<longrightarrow>
        fst (run_extraction env' job') = E_done \<and>
        status (snd (run_extraction env' job')) = Completed \<and>
        completed_at (snd (run_extraction env' job')) = Some (extractor_clock env')"
    by (auto simp: run_extraction_returns)
  show ?thesis
    unfolding Let_def using a s f c b s' d by (intro conjI)
qed

theorem completed_at_assigned_on_completion_only_witness:
  "0 < length (heap two_failing)
   \<and> status (heap two_failing ! 0) = Running
   \<and> completed_at (heap two_failing ! 0) = None
   \<and> 0 < length (heap done_ok)
   \<and> snd (threads done_ok ! 0) = S_done
   \<and> status (heap done_ok ! 0) = Completed
   \<and> completed_at (heap done_ok ! 0) \<noteq> None
   \<and> completed_at (snd (run_scraping_job_step env_ok S92 demo_job)) = Some (ascii ''2024-01-01T00:05:00'')
   \<and> completed_at (snd (run_scraping_job_step env_fail (S107 (ascii ''timeout'')) demo_job)) =
       completed_at demo_job
   \<and> scraper_raises env_fail = Some (ascii ''timeout'')
   \<and> status (snd (run_scraping_job env_fail demo_job)) = Failed
   \<and> completed_at (snd (run_scraping_job env_fail demo_job)) = None
   \<and> scraper_returns env_ok = Some demo_rows
   \<and> completed_at (snd (run_scraping_job env_ok demo_job)) = Some (ascii ''2024-01-01T00:05:00'')
   \<and> 0 < length (heap xdone_failed)
   \<and> status (heap xdone_failed ! 0) = Failed
   \<and> completed_at (heap xdone_failed ! 0) = None
   \<and> completed_at (snd (run_extraction_step xenv_ok E59 demo_xjob)) = Some (ascii ''2024-01-01T00:05:00'')
   \<and> extractor_returns xenv_ok = Some (demo_leads, demo_stats)
   \<and> completed_at (snd (run_extraction xenv_ok demo_xjob)) = Some (ascii ''2024-01-01T00:05:00'')"
proof -
  have e1: "scrape_exec no_int ([Post demo_request (ascii ''job-1'') (ascii ''2024-01-01T00:00:00''),
        Post demo_request (ascii ''job-2'') (ascii ''2024-01-01T00:01:00'')] @
        replicate 7 (Run 0 env_fail)) init_system = two_failing"
    by (simp add: two_failing_def two_submitted_def scrape_exec_def)
  have e2: "scrape_exec no_int ([Post demo_request (ascii ''job-1'') (ascii ''2024-01-01T00:00:00'')] @
        replicate 16 (Run 0 env_ok)) init_system = done_ok"
    by (simp add: done_ok_def submitted_def scrape_exec_def)
  have e3: "extract_exec no_int ([Post demo_extract_request (ascii ''job-7'') (ascii ''2024-01-01T00:00:00'')] @
        replicate 8 (Run 0 xenv_fail)) init_system = xdone_failed"
    by (simp add: xdone_failed_def xsubmitted_def extract_exec_def)
  note t1 = completed_at_assigned_on_completion_only [of no_int
      "[Post demo_request (ascii ''job-1'') (ascii ''2024-01-01T00:00:00''),
        Post demo_request (ascii ''job-2'') (ascii ''2024-01-01T00:01:00'')] @ replicate 7 (Run 0 env_fail)"
      env_ok S92 demo_job no_int
      "[Post demo_extract_request (ascii ''job-7'') (ascii ''2024-01-01T00:00:00'')] @ replicate 8 (Run 0 xenv_fail)"
      xenv_ok E59 demo_xjob, unfolded Let_def e1 e3]
  note t2 = completed_at_assigned_on_completion_only [of no_int
      "[Post demo_request (ascii ''job-1'') (ascii ''2024-01-01T00:00:00'')] @ replicate 16 (Run 0 env_ok)"
      env_fail "S107 (ascii ''timeout'')" demo_job no_int "[]" xenv_ok E59 demo_xjob, unfolded Let_def e2]
  have l: "0 < length (heap two_failing)" "0 < length (heap done_ok)" "0 < length (heap xdone_failed)"
    "status (heap two_failing ! 0) = Running" "status (heap xdone_failed ! 0) = Failed"
    "snd (threads done_ok ! 0) = S_done" "status (heap done_ok ! 0) = Completed"
    by (simp_all add: two_failing_eval done_ok_eval xdone_failed_eval)
  have f1: "completed_at (heap two_failing ! 0) = None"
    using t1 l by blast
  have f2: "completed_at (heap xdone_failed ! 0) = None"
    using t1 l by blast
  have f3: "completed_at (heap done_ok ! 0) \<noteq> None"
    using t2 l by blast
  have g1: "completed_at (snd (run_scraping_job_step env_ok S92 demo_job)) = Some (ascii ''2024-01-01T00:05:00'')"
    using t1 by (simp add: env_ok_def)
  have g2: "completed_at (snd (run_scraping_job_step env_fail (S107 (ascii ''timeout'')) demo_job)) =
       completed_at demo_job"
    using t2 by simp
  have g3: "completed_at (snd (run_extraction_step xenv_ok E59 demo_xjob)) = Some (ascii ''2024-01-01T00:05:00'')"
    using t1 by (simp add: xenv_ok_def)
  have f4: "completed_at (snd (run_scraping_job env_ok demo_job)) = Some (ascii ''2024-01-01T00:05:00'')"
    using t1 env_ok_returns by (simp add: env_ok_def)
  have f5: "completed_at (snd (run_extraction xenv_ok demo_xjob)) = Some (ascii ''2024-01-01T00:05:00'')"
    using t1 xenv_ok_returns by (simp add: xenv_ok_def)
  have f6: "status (snd (run_scraping_job env_fail demo_job)) = Failed"
    "completed_at (snd (run_scraping_job env_fail demo_job)) = None"
    using t2 env_fail_raises by (simp_all add: demo_job_def new_ScrapingJob_def)
  show ?thesis
    using l f1 f2 f3 g1 g2 g3 f4 f5 f6 env_fail_raises env_ok_returns xenv_ok_returns by simp
qed

text \<open>
  C8. For every valid submission the job is registered in the dict before submit returns
  the id, and submit does not wait on the Extractor: in every state the process reaches, a
  submit answered 200 returns the id it drew, the dict holds a pending job under that id,
  the job's thread has been started and stands before its first statement, and from then
  on, whatever events follow, the status endpoint never answers 404 for that id. In both
  wrappers.
\<close>

theorem submitted_job_is_always_found:
  "(let \<sigma> = scrape_exec P evs init_system; reply = start_scraping P data uuid now \<sigma> in
      http_code (fst reply) = 200 \<longrightarrow>
        fst reply = Json 200 (JDict [(''success'', JBool True), (''job_id'', JStr uuid),
             (''message'', JStr (ascii ''Scraping started with email extraction enabled''))]) \<and>
        lookup_job (snd reply) uuid = Some (heap (snd reply) ! length (heap \<sigma>)) \<and>
        status (heap (snd reply) ! length (heap \<sigma>)) = Pending \<and>
        threads (snd reply) = threads \<sigma> @ [(length (heap \<sigma>), S45)] \<and>
        (\<forall>later. http_code (get_job_status (scrape_exec P later (snd reply)) uuid) \<noteq> 404))
   \<and> (let \<tau> = extract_exec P' evs' init_system; reply = start_extraction P' data' uuid' now' \<tau> in
      http_code (fst reply) = 200 \<longrightarrow>
        fst reply = Json 200 (JDict [(''success'', JBool True), (''job_id'', JStr uuid'),
             (''message'', JStr (ascii ''Extraction started''))]) \<and>
        lookup_job (snd reply) uuid' = Some (heap (snd reply) ! length (heap \<tau>)) \<and>
        status (heap (snd reply) ! length (heap \<tau>)) = Pending \<and>
        threads (snd reply) = threads \<tau> @ [(length (heap \<tau>), E43)] \<and>
        (\<forall>later. http_code (extraction_get_job_status (extract_exec P' later (snd reply)) uuid') \<noteq> 404))"
proof -
  let ?\<sigma> = "scrape_exec P evs init_system"
  let ?\<tau> = "extract_exec P' evs' init_system"
  have a: "wf_system scrape_ok ?\<sigma>"
    by (rule scrape_reach_wf)
  have a': "wf_system scrape_ok (snd (start_scraping P data uuid now ?\<sigma>))"
    using a by (rule start_scraping_wf)
  have b: "wf_system extract_ok ?\<tau>"
    by (rule extract_reach_wf)
  have b': "wf_system extract_ok (snd (start_extraction P' data' uuid' now' ?\<tau>))"
    using b by (rule start_extraction_wf)
  have A: "fst (start_scraping P data uuid now ?\<sigma>) =
        Json 200 (JDict [(''success'', JBool True), (''job_id'', JStr uuid),
             (''message'', JStr (ascii ''Scraping started with email extraction enabled''))]) \<and>
      lookup_job (snd (start_scraping P data uuid now ?\<sigma>)) uuid =
        Some (heap (snd (start_scraping P data uuid now ?\<sigma>)) ! length (heap ?\<sigma>)) \<and>
      status (heap (snd (start_scraping P data uuid now ?\<sigma>)) ! length (heap ?\<sigma>)) = Pending \<and>
      threads (snd (start_scraping P data uuid now ?\<sigma>)) = threads ?\<sigma> @ [(length (heap ?\<sigma>), S45)] \<and>
      (\<forall>later. http_code (get_job_status
          (scrape_exec P later (snd (start_scraping P data uuid now ?\<sigma>))) uuid) \<noteq> 404)"
    if ok: "http_code (fst (start_scraping P data uuid now ?\<sigma>)) = 200"
  proof -
    note r = start_scraping_registers [OF a ok]
    have "\<forall>later. http_code (get_job_status
          (scrape_exec P later (snd (start_scraping P data uuid now ?\<sigma>))) uuid) \<noteq> 404"
      using scrape_stays_found [OF a' r(6)] by simp
    then show ?thesis using r(1) r(2) r(3) r(5) by simp
  qed
  have B: "fst (start_extraction P' data' uuid' now' ?\<tau>) =
        Json 200 (JDict [(''success'', JBool True), (''job_id'', JStr uuid'),
             (''message'', JStr (ascii ''Extraction started''))]) \<and>
      lookup_job (snd (start_extraction P' data' uuid' now' ?\<tau>)) uuid' =
        Some (heap (snd (start_extraction P' data' uuid' now' ?\<tau>)) ! length (heap ?\<tau>)) \<and>
      status (heap (snd (start_extraction P' data' uuid' now' ?\<tau>)) ! length (heap ?\<tau>)) = Pending \<and>
      threads (snd (start_extraction P' data' uuid' now' ?\<tau>)) = threads ?\<tau> @ [(length (heap ?\<tau>), E43)] \<and>
      (\<forall>later. http_code (extraction_get_job_status
          (extract_exec P' later (snd (start_extraction P' data' uuid' now' ?\<tau>))) uuid') \<noteq> 404)"
    if ok: "http_code (fst (start_extraction P' data' uuid' now' ?\<tau>)) = 200"
  proof -
    note r = start_extraction_registers [OF b ok]
    have "\<forall>later. http_code (extraction_get_job_status
          (extract_exec P' later (snd (start_extraction P' data' uuid' now' ?\<tau>))) uuid') \<noteq> 404"
      using extract_stays_found [OF b' r(6)] by simp
    then show ?thesis using r(1) r(2) r(3) r(5) by simp
  qed
  show ?thesis
    unfolding Let_def by (rule conjI; rule impI; (erule A | erule B))
qed

theorem submitted_job_is_always_found_witness:
  "http_code (fst (start_scraping no_int demo_request (ascii ''job-1'') (ascii ''2024-01-01T00:00:00'') init_system)) = 200
   \<and> lookup_job submitted (ascii ''job-1'') = Some (heap submitted ! 0)
   \<and> status (heap submitted ! 0) = Pending
   \<and> threads submitted = [(0, S45)]
   \<and> http_code (get_job_status done_failed (ascii ''job-1'')) \<noteq> 404
   \<and> http_code (fst (start_extraction no_int demo_extract_request (ascii ''job-7'') (ascii ''2024-01-01T00:00:00'') init_system)) = 200
   \<and> lookup_job xsubmitted (ascii ''job-7'') = Some (heap xsubmitted ! 0)
   \<and> status (heap xsubmitted ! 0) = Pending
   \<and> threads xsubmitted = [(0, E43)]
   \<and> http_code (extraction_get_job_status xdone_failed (ascii ''job-7'')) \<noteq> 404"
proof -
  have s: "snd (start_scraping no_int demo_request (ascii ''job-1'') (ascii ''2024-01-01T00:00:00'') init_system) = submitted"
    by (simp add: submitted_def scrape_exec_def)
  have x: "snd (start_extraction no_int demo_extract_request (ascii ''job-7'') (ascii ''2024-01-01T00:00:00'') init_system) = xsubmitted"
    by (simp add: xsubmitted_def extract_exec_def)
  have c: "http_code (fst (start_scraping no_int demo_request (ascii ''job-1'') (ascii ''2024-01-01T00:00:00'') init_system)) = 200"
    by (simp add: demo_request_def start_scraping_def get_strip_def get_int_def dict_get_def
        str_strip_def py_isspace_def ascii_def)
  have d: "http_code (fst (start_extraction no_int demo_extract_request (ascii ''job-7'') (ascii ''2024-01-01T00:00:00'') init_system)) = 200"
    by (simp add: demo_extract_request_def start_extraction_def get_strip_def get_int_def dict_get_def
        str_strip_def py_isspace_def ascii_def)
  have e: "scrape_exec no_int [] init_system = (init_system :: scrape_system)"
    "extract_exec no_int [] init_system = (init_system :: extract_system)"
    by (simp_all add: scrape_exec_def extract_exec_def)
  have h: "heap (init_system :: scrape_system) = []" "threads (init_system :: scrape_system) = []"
    "heap (init_system :: extract_system) = []" "threads (init_system :: extract_system) = []"
    by (simp_all add: init_system_def)
  note t = submitted_job_is_always_found [of no_int "[]" demo_request "ascii ''job-1''" "ascii ''2024-01-01T00:00:00''"
        no_int "[]" demo_extract_request "ascii ''job-7''" "ascii ''2024-01-01T00:00:00''", unfolded Let_def e s x h]
  from t c have A: "lookup_job submitted (ascii ''job-1'') = Some (heap submitted ! 0)"
    "status (heap submitted ! 0) = Pending" "threads submitted = [(0, S45)]"
    "\<forall>later. http_code (get_job_status (scrape_exec no_int later submitted) (ascii ''job-1'')) \<noteq> 404"
    by simp_all
  from t d have B: "lookup_job xsubmitted (ascii ''job-7'') = Some (heap xsubmitted ! 0)"
    "status (heap xsubmitted ! 0) = Pending" "threads xsubmitted = [(0, E43)]"
    "\<forall>later. http_code (extraction_get_job_status (extract_exec no_int later xsubmitted) (ascii ''job-7'')) \<noteq> 404"
    by simp_all
  have "http_code (get_job_status done_failed (ascii ''job-1'')) \<noteq> 404"
    unfolding done_failed_def using A(4) by blast
  moreover have "http_code (extraction_get_job_status xdone_failed (ascii ''job-7'')) \<noteq> 404"
    unfolding xdone_failed_def using B(4) by blast
  ultimately show ?thesis using c d A(1-3) B(1-3) by simp
qed




text \<open>
  C10. For every completed job the statistics the status and results endpoints report are
  computed from the stored records: the total (and \<^verbatim>\<open>results_count\<close>) is the number of records,
  and \<^verbatim>\<open>with_emails\<close>/\<^verbatim>\<open>emails_found\<close>, \<^verbatim>\<open>with_websites\<close>/\<^verbatim>\<open>websites_found\<close> and
  \<^verbatim>\<open>with_linkedin\<close> are the numbers of records whose field of that name holds a non-empty
  text. The status endpoint reports them as soon as \<^verbatim>\<open>completed_at\<close> is set; in the moment
  between lines 90 and 92, when the status is already \<^verbatim>\<open>completed\<close> and \<^verbatim>\<open>completed_at\<close> is
  still \<^verbatim>\<open>None\<close>, it reports nothing (\<^verbatim>\<open>None.isoformat()\<close> raises).
\<close>

theorem statistics_count_stored_records:
  "lookup_job \<sigma> jid = Some job \<and> status job = Completed \<longrightarrow>
     get_results \<sigma> jid =
       Json 200 (JDict [(''success'', JBool True), (''job_id'', JStr jid),
         (''results'', JList (map json_of_row (results job))),
         (''statistics'', JDict [
            (''total'', JInt (int (length (results job)))),
            (''with_emails'', JInt (int (length (filter (field_nonempty ''email'') (results job))))),
            (''with_websites'', JInt (int (length (filter (field_nonempty ''website'') (results job))))),
            (''with_linkedin'', JInt (int (length (filter (field_nonempty ''linkedin'') (results job)))))])])
     \<and> (completed_at job = None \<longrightarrow> get_job_status \<sigma> jid = Error500 AttributeError)
     \<and> (\<forall>t. completed_at job = Some t \<longrightarrow>
          get_job_status \<sigma> jid =
            Json 200 (JDict [(''success'', JBool True), (''job_id'', JStr jid),
              (''status'', JStr (ascii ''completed'')), (''progress'', JInt (progress job)),
              (''created_at'', JStr (created_at job)), (''completed_at'', JStr t),
              (''results_count'', JInt (int (length (results job)))),
              (''emails_found'', JInt (int (length (filter (field_nonempty ''email'') (results job))))),
              (''websites_found'', JInt (int (length (filter (field_nonempty ''website'') (results job)))))]))"
  by (simp add: get_results_def get_job_status_def count_with_filter)

theorem statistics_count_stored_records_witness:
  "lookup_job done_ok (ascii ''job-1'') = Some (heap done_ok ! 0)
   \<and> status (heap done_ok ! 0) = Completed
   \<and> completed_at (heap done_ok ! 0) = Some (ascii ''2024-01-01T00:05:00'')
   \<and> get_results done_ok (ascii ''job-1'') =
       Json 200 (JDict [(''success'', JBool True), (''job_id'', JStr (ascii ''job-1'')),
         (''results'', JList (map json_of_row (map clean_result demo_rows))),
         (''statistics'', JDict [(''total'', JInt 2), (''with_emails'', JInt 1),
            (''with_websites'', JInt 1), (''with_linkedin'', JInt 0)])])
   \<and> get_job_status done_ok (ascii ''job-1'') =
       Json 200 (JDict [(''success'', JBool True), (''job_id'', JStr (ascii ''job-1'')),
         (''status'', JStr (ascii ''completed'')), (''progress'', JInt 100),
         (''created_at'', JStr (ascii ''2024-01-01T00:00:00'')), (''completed_at'', JStr (ascii ''2024-01-01T00:05:00'')),
         (''results_count'', JInt 2), (''emails_found'', JInt 1), (''websites_found'', JInt 1)])"
proof -
  have l: "lookup_job done_ok (ascii ''job-1'') = Some (heap done_ok ! 0)"
    by (simp add: done_ok_eval lookup_job_def)
  have s: "status (heap done_ok ! 0) = Completed"
    and c: "completed_at (heap done_ok ! 0) = Some (ascii ''2024-01-01T00:05:00'')"
    and p: "progress (heap done_ok ! 0) = 100"
    and t: "created_at (heap done_ok ! 0) = (ascii ''2024-01-01T00:00:00'')"
    and r: "results (heap done_ok ! 0) = map clean_result demo_rows"
    by (simp_all add: done_ok_eval demo_job_def new_ScrapingJob_def)
  show ?thesis
    using statistics_count_stored_records [of done_ok "ascii ''job-1''" "heap done_ok ! 0"] l s c
    by (simp add: p t r clean_demo_rows field_nonempty_def)
qed

end
